theory Spec2Isabelle
  imports Complex_Main "HOL-Library.Multiset"
begin

section \<open>Data model\<close>

text \<open>
  A dataset of the mesh library, as \<^verbatim>\<open>filters.py\<close> uses it: the class of the object, its
  points, its cells (each cell the list of the indices of its points) and the two
  dictionaries of named arrays, one entry per point and one entry per cell. The arrays that
  the module reads and writes hold integers (identifiers, markers and the 0/1 intersection
  mask), so an array is a list of Python integers.
\<close>

type_synonym vec3 = "real \<times> real \<times> real"

type_synonym array = "int list"

datatype kind = PolyData | UnstructuredGrid | StructuredGrid | RectilinearGrid | UniformGrid

record mesh =
  kind :: kind
  points :: "vec3 list"
  cells :: "nat list list"
  point_data :: "string \<rightharpoonup> array"
  cell_data :: "string \<rightharpoonup> array"

datatype error =
    ValueError string
  | TypeError string
  | KeyError string
  | IndexError
  | AttributeError string

definition n_cells :: "mesh \<Rightarrow> nat" where
  "n_cells m = length (cells m)"

definition n_points :: "mesh \<Rightarrow> nat" where
  "n_points m = length (points m)"

text \<open>\<^verbatim>\<open>pv.PolyData()\<close>: the dataset with no points, no cells and no arrays.\<close>

definition empty_PolyData :: mesh where
  "empty_PolyData =
     \<lparr>kind = PolyData, points = [], cells = [], point_data = Map.empty, cell_data = Map.empty\<rparr>"

section \<open>What the module imports\<close>

text \<open>
  \<^verbatim>\<open>filters.py\<close> imports five constants and five functions from \<^verbatim>\<open>geovista.common\<close>, which is not
  among the sources, and calls the mesh library for triangulation, the cutting plane, the
  surface intersection and the cell centres. They are the fields of one record, and every
  definition below takes that record as its first argument; nothing is assumed about a field
  unless a theorem says so.

  \<^item> \<open>wrap\<close> returns an array, of which \<^verbatim>\<open>remesh\<close> reads entry 0;
  \<^item> \<open>subtract\<close>, \<open>true_divide\<close> and \<open>multiply\<close> are the arithmetic of floating-point numbers:
    the \<^verbatim>\<open>-\<close> of line 177, the \<^verbatim>\<open>/\<close> of line 131 and the \<^verbatim>\<open>*\<close> of line 135. Their results are
    rounded, so they are not taken to be the exact difference, quotient and product of their
    arguments; a floating-point number is read as the real it denotes;
  \<^item> \<open>to_xy0\<close> returns one row \<open>(x, y, 0)\<close> per point, of which \<^verbatim>\<open>remesh\<close> reads column 0;
  \<^item> \<open>sanitize_data\<close> works in place on the three datasets it is given: it is a function
    from the three to the three;
  \<^item> \<open>vtkIntersectionPolyDataFilter\<close> is the filter as \<^verbatim>\<open>remesh\<close> configures it (intersection
    point array on, first input split, second not), from its two inputs and the
    \<^verbatim>\<open>check\<close> flag to its output port 1.
\<close>

record env =
  GV_CELL_IDS :: string
  GV_POINT_IDS :: string
  GV_REMESH_POINT_IDS :: string
  REMESH_JOIN :: int
  REMESH_SEAM :: int
  calculate_radius :: "mesh \<Rightarrow> real"
  sanitize_data :: "mesh \<times> mesh \<times> mesh \<Rightarrow> mesh \<times> mesh \<times> mesh"
  to_xy0 :: "mesh \<Rightarrow> vec3 list"
  triangulated :: "mesh \<Rightarrow> bool"
  wrap :: "real \<Rightarrow> real list"
  subtract :: "real \<Rightarrow> real \<Rightarrow> real"
  true_divide :: "real \<Rightarrow> real \<Rightarrow> real"
  multiply :: "real \<Rightarrow> real \<Rightarrow> real"
  triangulate :: "mesh \<Rightarrow> mesh"
  Plane :: "vec3 \<Rightarrow> int \<Rightarrow> int \<Rightarrow> real \<Rightarrow> real \<Rightarrow> vec3 \<Rightarrow> mesh"
  rotate_z :: "mesh \<Rightarrow> real \<Rightarrow> mesh"
  vtkIntersectionPolyDataFilter :: "mesh \<Rightarrow> mesh \<Rightarrow> bool \<Rightarrow> mesh"
  cell_centers :: "mesh \<Rightarrow> mesh"
  clean :: "mesh \<Rightarrow> mesh"

section \<open>Module constants\<close>

definition REMESH_SEAM_EAST :: "env \<Rightarrow> int" where
  "REMESH_SEAM_EAST env = REMESH_SEAM env - 1"

definition VTK_BAD_TRIANGLE_MASK :: string where
  "VTK_BAD_TRIANGLE_MASK = ''BadTriangle''"

definition VTK_BOUNDARY_MASK :: string where
  "VTK_BOUNDARY_MASK = ''BoundaryPoints''"

definition VTK_FREE_EDGE_MASK :: string where
  "VTK_FREE_EDGE_MASK = ''FreeEdge''"

section \<open>Operations of the array and mesh libraries\<close>

text \<open>\<^verbatim>\<open>np.arange(n)\<close>.\<close>

definition arange :: "nat \<Rightarrow> array" where
  "arange n = map int [0..<n]"

text \<open>\<^verbatim>\<open>np.asarray(a, dtype=bool)\<close>: an entry is true when it is not zero.\<close>

definition asarray_bool :: "array \<Rightarrow> bool list" where
  "asarray_bool a = map (\<lambda>v. v \<noteq> 0) a"

text \<open>
  \<^verbatim>\<open>a[mask] = c\<close> for a boolean mask: the entries where the mask is true become \<open>c\<close>; a mask
  of another length than the array raises \<^verbatim>\<open>IndexError\<close>.
\<close>

definition assign_masked :: "array \<Rightarrow> bool list \<Rightarrow> int \<Rightarrow> error + array" where
  "assign_masked a bmask c =
     (if length bmask \<noteq> length a then Inl IndexError
      else Inr (map2 (\<lambda>v b. if b then c else v) a bmask))"

text \<open>\<^verbatim>\<open>a[np.where(a != s)[0]] = c\<close>: every entry other than \<open>s\<close> becomes \<open>c\<close>.\<close>

definition assign_where_ne :: "array \<Rightarrow> int \<Rightarrow> int \<Rightarrow> array" where
  "assign_where_ne a s c = map (\<lambda>v. if v \<noteq> s then c else v) a"

text \<open>
  \<^verbatim>\<open>mesh.extract_cells(ind)\<close> with a boolean mask. The mask is turned into the indices of its
  true entries; the cells with these indices are kept, in order; the points that a kept cell
  uses are kept, in order, and the cells are renumbered to them; every point array and cell
  array is restricted in the same way; the indices of the kept points and cells in the
  source are stored under \<^verbatim>\<open>vtkOriginalPointIds\<close> and \<^verbatim>\<open>vtkOriginalCellIds\<close>. The result is an
  unstructured grid.
\<close>

definition extract_cells :: "mesh \<Rightarrow> bool list \<Rightarrow> mesh" where
  "extract_cells m ind =
     (let ids = filter (\<lambda>i. ind ! i) [0..<length ind];
          kept = filter (\<lambda>i. i < n_cells m) ids;
          faces = nths (cells m) (set kept);
          used = filter (\<lambda>p. p \<in> set (concat faces)) [0..<n_points m]
      in \<lparr>kind = UnstructuredGrid,
          points = nths (points m) (set used),
          cells = map (map (\<lambda>p. length (filter (\<lambda>q. q < p) used))) faces,
          point_data =
            (\<lambda>name. map_option (\<lambda>a. nths a (set used)) (point_data m name))
              (''vtkOriginalPointIds'' \<mapsto> map int used),
          cell_data =
            (\<lambda>name. map_option (\<lambda>a. nths a (set kept)) (cell_data m name))
              (''vtkOriginalCellIds'' \<mapsto> map int kept)\<rparr>)"

text \<open>
  \<^verbatim>\<open>vtkGeometryFilter\<close> on a dataset whose cells are faces: the faces, the points and the
  arrays pass through, and the output is polygonal data.
\<close>

definition vtkGeometryFilter :: "mesh \<Rightarrow> mesh" where
  "vtkGeometryFilter m = m\<lparr>kind := PolyData\<rparr>"

text \<open>
  \<^verbatim>\<open>mesh[name]\<close>: the array of that name, searched among the point arrays and the cell arrays.
  When both have one, the cell array is returned, which is the preference of the mesh library
  for this form of access; when neither has one, \<^verbatim>\<open>KeyError\<close> is raised. The array returned is
  a view of the one in the dataset, so an assignment to its entries changes the dataset:
  \<open>set_array\<close> writes the changed array back where it was found.
\<close>

datatype association = POINT | CELL

definition get_array :: "mesh \<Rightarrow> string \<Rightarrow> error + association \<times> array" where
  "get_array m name =
     (case cell_data m name of
        Some c \<Rightarrow> Inr (CELL, c)
      | None \<Rightarrow>
          (case point_data m name of
             Some p \<Rightarrow> Inr (POINT, p)
           | None \<Rightarrow> Inl (KeyError name)))"

definition set_array :: "mesh \<Rightarrow> association \<Rightarrow> string \<Rightarrow> array \<Rightarrow> mesh" where
  "set_array m a name v =
     (case a of
        POINT \<Rightarrow> m\<lparr>point_data := (point_data m)(name \<mapsto> v)\<rparr>
      | CELL \<Rightarrow> m\<lparr>cell_data := (cell_data m)(name \<mapsto> v)\<rparr>)"

text \<open>
  \<^verbatim>\<open>mesh.point_data[name] = a\<close>: the array is stored among the point arrays; the mesh library
  refuses an array that does not have one entry per point with \<^verbatim>\<open>ValueError\<close>.
\<close>

definition point_data_setitem :: "mesh \<Rightarrow> string \<Rightarrow> array \<Rightarrow> error + mesh" where
  "point_data_setitem m name a =
     (if length a \<noteq> n_points m
      then Inl (ValueError ''data length != required length'')
      else Inr (m\<lparr>point_data := (point_data m)(name \<mapsto> a)\<rparr>))"

section \<open>cast_UnstructuredGrid_to_PolyData\<close>

text \<open>
  The name of a dataset class, and the expression \<^verbatim>\<open>type(mesh).split(" ")\<close> of line 66.
  \<^verbatim>\<open>type(mesh)\<close> is the class object, not its printed form, and no dataset class has an
  attribute \<^verbatim>\<open>split\<close>: the attribute lookup raises \<^verbatim>\<open>AttributeError\<close>.
\<close>

definition class_name :: "kind \<Rightarrow> string" where
  "class_name k =
     (case k of PolyData \<Rightarrow> ''PolyData'' | UnstructuredGrid \<Rightarrow> ''UnstructuredGrid''
      | StructuredGrid \<Rightarrow> ''StructuredGrid'' | RectilinearGrid \<Rightarrow> ''RectilinearGrid''
      | UniformGrid \<Rightarrow> ''UniformGrid'')"

definition type_split :: "kind \<Rightarrow> error + string list" where
  "type_split k =
     Inl (AttributeError (''type object '' @ class_name k @ '' has no attribute split''))"

text \<open>\<^verbatim>\<open>parts[1][:-1]\<close>: entry 1 of a list of strings, without its last character.\<close>

definition second_butlast :: "string list \<Rightarrow> error + string" where
  "second_butlast parts =
     (case parts of _ # s # _ \<Rightarrow> Inr (butlast s) | _ \<Rightarrow> Inl IndexError)"

definition cast_UnstructuredGrid_to_PolyData :: "env \<Rightarrow> mesh \<Rightarrow> bool \<Rightarrow> error + mesh" where
  "cast_UnstructuredGrid_to_PolyData env mesh do_clean =
     (if kind mesh \<noteq> UnstructuredGrid then
        (case type_split (kind mesh) of
           Inl e \<Rightarrow> Inl e
         | Inr parts \<Rightarrow>
             (case second_butlast parts of
                Inl e \<Rightarrow> Inl e
              | Inr dtype \<Rightarrow>
                  Inl (TypeError (''Expected a pyvista.UnstructuredGrid, got '' @ dtype @ ''.''))))
      else
        (let result = vtkGeometryFilter mesh;
             result' = (if do_clean then clean env result else result)
         in Inr result'))"

section \<open>remesh\<close>

text \<open>
  Lines 113 to 119: the deep copy of the input and the two identifier arrays, each created
  only when the dataset has no array of that name.
\<close>

definition tag :: "env \<Rightarrow> mesh \<Rightarrow> mesh" where
  "tag env mesh =
     (let poly0 = mesh;
          poly0' =
            (if cell_data poly0 (GV_CELL_IDS env) = None
             then poly0\<lparr>cell_data := (cell_data poly0)(GV_CELL_IDS env \<mapsto> arange (n_cells poly0))\<rparr>
             else poly0);
          poly0'' =
            (if point_data poly0' (GV_POINT_IDS env) = None
             then poly0'\<lparr>point_data :=
                    (point_data poly0')(GV_POINT_IDS env \<mapsto> arange (n_points poly0'))\<rparr>
             else poly0')
      in poly0'')"

text \<open>Lines 113 to 128: the tagged copy, triangulated unless it already is.\<close>

definition normalized :: "env \<Rightarrow> mesh \<Rightarrow> mesh" where
  "normalized env mesh =
     (let poly0 = tag env mesh
      in if \<not> triangulated env poly0 then triangulate env poly0 else poly0)"

text \<open>Lines 130 to 139: the cutting plane for a radius and a meridian.\<close>

definition cutting_plane :: "env \<Rightarrow> real \<Rightarrow> real \<Rightarrow> mesh" where
  "cutting_plane env radius meridian =
     (let poly1 = Plane env (true_divide env radius 2, 0, 0) 1 1 radius (multiply env radius 2)
                    (0, 1, 0);
          poly1' = rotate_z env poly1 meridian
      in triangulate env poly1')"

text \<open>
  Lines 175 to 177: the array \<^verbatim>\<open>delta\<close>, one entry per cell centre, the longitude of the centre
  minus the meridian in floating-point arithmetic.
\<close>

definition deltas :: "env \<Rightarrow> mesh \<Rightarrow> real \<Rightarrow> real list" where
  "deltas env remeshed meridian =
     (let centers = cell_centers env remeshed;
          lons = map fst (to_xy0 env centers)
      in map (\<lambda>lon. subtract env lon meridian) lons)"

text \<open>Lines 178 to 181: the masks of the western and of the eastern cells.\<close>

definition lower_mask :: "real list \<Rightarrow> bool list" where
  "lower_mask delta = map (\<lambda>d. d < 0 \<and> d > - 180) delta"

definition upper_mask :: "real list \<Rightarrow> bool list" where
  "upper_mask delta = map (\<lambda>d. d > 180) delta"

definition west_mask :: "real list \<Rightarrow> bool list" where
  "west_mask delta = map2 (\<or>) (lower_mask delta) (upper_mask delta)"

definition east_mask :: "real list \<Rightarrow> bool list" where
  "east_mask delta = map Not (west_mask delta)"

text \<open>
  Lines 199 to 204, and again lines 206 to 211 with the eastern marker and mask: the marker
  is written at the intersection points into the array \<^verbatim>\<open>remeshed[GV_REMESH_POINT_IDS]\<close>, the
  cells of one side are extracted, and in the array of that name of the extracted half every
  entry that is not the marker becomes \<^verbatim>\<open>REMESH_JOIN\<close>. The result is the remeshed dataset,
  with the marker written, and the half.
\<close>

definition seam_pass ::
  "env \<Rightarrow> mesh \<Rightarrow> bool list \<Rightarrow> bool list \<Rightarrow> int \<Rightarrow> error + mesh \<times> mesh" where
  "seam_pass env remeshed boundary_mask side_mask seam =
     (case get_array remeshed (GV_REMESH_POINT_IDS env) of
        Inl e \<Rightarrow> Inl e
      | Inr (a, ids) \<Rightarrow>
          (case assign_masked ids boundary_mask seam of
             Inl e \<Rightarrow> Inl e
           | Inr ids' \<Rightarrow>
               (let remeshed' = set_array remeshed a (GV_REMESH_POINT_IDS env) ids'
                in case cast_UnstructuredGrid_to_PolyData env
                          (extract_cells remeshed' side_mask) False of
                     Inl e \<Rightarrow> Inl e
                   | Inr half \<Rightarrow>
                       (case get_array half (GV_REMESH_POINT_IDS env) of
                          Inl e \<Rightarrow> Inl e
                        | Inr (ha, hids) \<Rightarrow>
                            Inr (remeshed',
                                 set_array half ha (GV_REMESH_POINT_IDS env)
                                   (assign_where_ne hids seam (REMESH_JOIN env)))))))"

text \<open>Lines 175 to 214: the branch of a remeshed dataset that has cells.\<close>

definition split_halves :: "env \<Rightarrow> mesh \<Rightarrow> real \<Rightarrow> bool \<Rightarrow> error + mesh \<times> mesh \<times> mesh" where
  "split_halves env remeshed meridian boundary =
     (let delta = deltas env remeshed meridian
      in case point_data remeshed VTK_BOUNDARY_MASK of
           None \<Rightarrow> Inl (KeyError VTK_BOUNDARY_MASK)
         | Some bp \<Rightarrow>
             (let boundary_mask = asarray_bool bp;
                  remeshed1 =
                    (if \<not> boundary
                     then remeshed\<lparr>point_data := (point_data remeshed)(VTK_BOUNDARY_MASK := None)\<rparr>
                     else remeshed)
              in case get_array remeshed1 (GV_POINT_IDS env) of
                   Inl e \<Rightarrow> Inl e
                 | Inr (_, pids) \<Rightarrow>
                     (case point_data_setitem remeshed1 (GV_REMESH_POINT_IDS env) pids of
                        Inl e \<Rightarrow> Inl e
                      | Inr remeshed2 \<Rightarrow>
                          (case seam_pass env remeshed2 boundary_mask (west_mask delta)
                                  (REMESH_SEAM env) of
                             Inl e \<Rightarrow> Inl e
                           | Inr (remeshed3, remeshed_west) \<Rightarrow>
                               (case seam_pass env remeshed3 boundary_mask (east_mask delta)
                                       (REMESH_SEAM_EAST env) of
                                  Inl e \<Rightarrow> Inl e
                                | Inr (remeshed4, remeshed_east) \<Rightarrow>
                                    (let remeshed5 =
                                           remeshed4\<lparr>point_data :=
                                             (point_data remeshed4)
                                               (GV_REMESH_POINT_IDS env := None)\<rparr>
                                     in Inr (sanitize_data env
                                               (remeshed5, remeshed_west, remeshed_east))))))))"

text \<open>
  The function itself. Its last argument and the second component of its result are the
  global warning display switch of the mesh library, which lines 99 and 164 turn off and on.
  The calls of the logger and of the clock have no part in the result.
\<close>

definition remesh ::
  "env \<Rightarrow> mesh \<Rightarrow> real \<Rightarrow> bool \<Rightarrow> bool \<Rightarrow> bool \<Rightarrow> bool \<Rightarrow> (error + mesh \<times> mesh \<times> mesh) \<times> bool" where
  "remesh env mesh meridian boundary check warnings display =
     (let display1 = (if \<not> warnings then False else display)
      in if n_cells mesh = 0
         then (Inl (ValueError ''Cannot remesh an empty mesh''), display1)
         else
           (case wrap env meridian of
              [] \<Rightarrow> (Inl IndexError, display1)
            | meridian' # _ \<Rightarrow>
                (let radius = calculate_radius env mesh;
                     poly0 = normalized env mesh;
                     poly1 = cutting_plane env radius meridian';
                     remeshed = vtkIntersectionPolyDataFilter env poly0 poly1 check;
                     display2 = (if \<not> warnings then True else display1)
                 in if n_cells remeshed = 0
                    then (Inr (remeshed, empty_PolyData, empty_PolyData), display2)
                    else (split_halves env remeshed meridian' boundary, display2))))"

text \<open>
  Lines 105 to 161: the dataset that the intersection filter returns for an input and a
  meridian that \<open>wrap\<close> has already normalised. \<^verbatim>\<open>remesh\<close> branches on its number of cells.
\<close>

definition intersected :: "env \<Rightarrow> mesh \<Rightarrow> real \<Rightarrow> bool \<Rightarrow> mesh" where
  "intersected env mesh meridian check =
     vtkIntersectionPolyDataFilter env (normalized env mesh)
       (cutting_plane env (calculate_radius env mesh) meridian) check"

section \<open>Notions used in the statements\<close>

text \<open>The indices of the cells that \<open>extract_cells\<close> keeps for a mask.\<close>

definition kept_ids :: "mesh \<Rightarrow> bool list \<Rightarrow> nat set" where
  "kept_ids m ind = {i. i < length ind \<and> ind ! i \<and> i < n_cells m}"

text \<open>
  What the statements about the outputs ask of \<open>sanitize_data\<close>, whose code is not among the
  sources: it leaves the points and the cells of each dataset alone, and the arrays under
  the four names that \<^verbatim>\<open>remesh\<close> itself reads and writes.
\<close>

definition reserved :: "env \<Rightarrow> string set" where
  "reserved env =
     {GV_CELL_IDS env, GV_POINT_IDS env, GV_REMESH_POINT_IDS env, VTK_BOUNDARY_MASK}"

definition same_frame :: "env \<Rightarrow> mesh \<Rightarrow> mesh \<Rightarrow> bool" where
  "same_frame env m m' =
     (points m' = points m \<and> cells m' = cells m \<and>
      (\<forall>name \<in> reserved env.
         point_data m' name = point_data m name \<and> cell_data m' name = cell_data m name))"

definition sanitize_frame :: "env \<Rightarrow> bool" where
  "sanitize_frame env =
     (\<forall>a b c. case sanitize_data env (a, b, c) of
        (a', b', c') \<Rightarrow> same_frame env a a' \<and> same_frame env b b' \<and> same_frame env c c')"

text \<open>The values that an array holds: the empty set for a name that is absent.\<close>

definition values_of :: "array option \<Rightarrow> int set" where
  "values_of a = (case a of None \<Rightarrow> {} | Some xs \<Rightarrow> set xs)"

section \<open>An example: one triangle across the meridian 0\<close>

text \<open>
  A concrete instance of the imported functions, and a triangle on the sphere of radius
  \<open>sqrt 10\<close> with the corners \<open>(1, -3, 0)\<close>, \<open>(1, 3, 0)\<close> and \<open>(1, 0, 3)\<close>. The half plane of the
  meridian 0 cuts it along the segment from \<open>(1, 0, 0)\<close> to \<open>(1, 0, 3)\<close>; the half plane
  of the meridian 180 misses it. The instance computes in exact arithmetic. The only meridian
  that the example subtracts from a longitude is 0, and subtracting 0 is exact in
  floating-point arithmetic too; of the radius the example needs no more than that the plane
  reaches \<open>x = 1\<close>.
\<close>

definition longitude :: "real \<Rightarrow> real \<Rightarrow> real" where
  "longitude x y =
     (if 0 < x then arctan (y / x) * 180 / pi
      else if x < 0 \<and> 0 \<le> y then arctan (y / x) * 180 / pi + 180
      else if x < 0 then arctan (y / x) * 180 / pi - 180
      else if 0 < y then 90 else if y < 0 then - 90 else 0)"

definition ex_to_xy0 :: "mesh \<Rightarrow> vec3 list" where
  "ex_to_xy0 m =
     map (\<lambda>(x, y, z). (longitude x y, longitude (sqrt (x * x + y * y)) z, 0)) (points m)"

definition centroid :: "mesh \<Rightarrow> nat list \<Rightarrow> vec3" where
  "centroid m c =
     (sum_list (map (\<lambda>i. fst (points m ! i)) c) / real (length c),
      sum_list (map (\<lambda>i. fst (snd (points m ! i))) c) / real (length c),
      sum_list (map (\<lambda>i. snd (snd (points m ! i))) c) / real (length c))"

definition ex_cell_centers :: "mesh \<Rightarrow> mesh" where
  "ex_cell_centers m =
     \<lparr>kind = PolyData, points = map (centroid m) (cells m),
      cells = map (\<lambda>i. [i]) [0..<n_cells m],
      point_data = cell_data m, cell_data = Map.empty\<rparr>"

definition purge :: "mesh \<Rightarrow> mesh" where
  "purge m =
     m\<lparr>point_data := (point_data m)(''vtkOriginalPointIds'' := None),
       cell_data := (cell_data m)(''vtkOriginalCellIds'' := None)\<rparr>"

definition ex_sanitize_data :: "mesh \<times> mesh \<times> mesh \<Rightarrow> mesh \<times> mesh \<times> mesh" where
  "ex_sanitize_data t = (case t of (a, b, c) \<Rightarrow> (purge a, purge b, purge c))"

definition fan :: "nat list \<Rightarrow> nat list list" where
  "fan c = (case c of [] \<Rightarrow> [] | a # rest \<Rightarrow> map (\<lambda>(p, q). [a, p, q]) (zip rest (tl rest)))"

definition ex_triangulate :: "mesh \<Rightarrow> mesh" where
  "ex_triangulate m =
     m\<lparr>cells := concat (map fan (cells m)),
       cell_data :=
         (\<lambda>name. map_option
            (\<lambda>a. concat (map2 (\<lambda>c v. replicate (length (fan c)) v) (cells m) a))
            (cell_data m name))\<rparr>"

definition ex_Plane :: "vec3 \<Rightarrow> int \<Rightarrow> int \<Rightarrow> real \<Rightarrow> real \<Rightarrow> vec3 \<Rightarrow> mesh" where
  "ex_Plane center i_resolution j_resolution i_size j_size direction =
     (case center of (cx, cy, cz) \<Rightarrow>
        \<lparr>kind = PolyData,
         points = [(cx - i_size / 2, cy, cz - j_size / 2), (cx + i_size / 2, cy, cz - j_size / 2),
                   (cx - i_size / 2, cy, cz + j_size / 2), (cx + i_size / 2, cy, cz + j_size / 2)],
         cells = [[0, 1, 3, 2]], point_data = Map.empty, cell_data = Map.empty\<rparr>)"

definition ex_rotate_z :: "mesh \<Rightarrow> real \<Rightarrow> mesh" where
  "ex_rotate_z m angle =
     m\<lparr>points :=
         map (\<lambda>(x, y, z).
                (x * cos (angle * pi / 180) - y * sin (angle * pi / 180),
                 x * sin (angle * pi / 180) + y * cos (angle * pi / 180), z))
           (points m)\<rparr>"

definition ex_wrap :: "real \<Rightarrow> real list" where
  "ex_wrap x = [x - 360 * of_int \<lfloor>(x + 180) / 360\<rfloor>]"

definition ex_calculate_radius :: "mesh \<Rightarrow> real" where
  "ex_calculate_radius m =
     fold max (map (\<lambda>(x, y, z). sqrt (x * x + y * y + z * z)) (points m)) 0"

definition ex_triangle :: "vec3 list" where
  "ex_triangle = [(1, - 3, 0), (1, 3, 0), (1, 0, 3)]"

text \<open>
  The answer of the intersection filter. For the example triangle and a cutting plane that
  lies in \<open>y = 0\<close> and reaches \<open>x = 1\<close>, the triangle is split at the new point \<open>(1, 0, 0)\<close>
  into two triangles; both inherit the cell arrays of the triangle, the new point gets the
  entry 0 in every point array, and the mask of the intersection points marks the two points
  on the cut. For any other input the filter finds no intersection and returns no cells.
\<close>

definition ex_filter :: "mesh \<Rightarrow> mesh \<Rightarrow> bool \<Rightarrow> mesh" where
  "ex_filter poly0 poly1 check =
     (if points poly0 = ex_triangle \<and> cells poly0 = [[0, 1, 2]] \<and>
         list_all (\<lambda>p. fst (snd p) = 0) (points poly1) \<and>
         list_ex (\<lambda>p. 1 \<le> fst p) (points poly1)
      then \<lparr>kind = PolyData,
            points = ex_triangle @ [(1, 0, 0)],
            cells = [[0, 3, 2], [3, 1, 2]],
            point_data =
              (\<lambda>name. map_option (\<lambda>a. a @ [0]) (point_data poly0 name))
                (VTK_BOUNDARY_MASK \<mapsto> [0, 0, 1, 1]),
            cell_data = (\<lambda>name. map_option (\<lambda>a. concat (map (\<lambda>v. [v, v]) a)) (cell_data poly0 name))\<rparr>
      else empty_PolyData)"

definition ex_env :: env where
  "ex_env =
     \<lparr>GV_CELL_IDS = ''gvOriginalCellIds'',
      GV_POINT_IDS = ''gvOriginalPointIds'',
      GV_REMESH_POINT_IDS = ''gvRemeshPointIds'',
      REMESH_JOIN = - 3,
      REMESH_SEAM = - 4,
      calculate_radius = ex_calculate_radius,
      sanitize_data = ex_sanitize_data,
      to_xy0 = ex_to_xy0,
      triangulated = (\<lambda>m. list_all (\<lambda>c. length c = 3) (cells m)),
      wrap = ex_wrap,
      subtract = (\<lambda>x y. x - y),
      true_divide = (\<lambda>x y. x / y),
      multiply = (\<lambda>x y. x * y),
      triangulate = ex_triangulate,
      Plane = ex_Plane,
      rotate_z = ex_rotate_z,
      vtkIntersectionPolyDataFilter = ex_filter,
      cell_centers = ex_cell_centers,
      clean = (\<lambda>m. m)\<rparr>"

definition ex_mesh :: mesh where
  "ex_mesh =
     \<lparr>kind = PolyData, points = ex_triangle, cells = [[0, 1, 2]],
      point_data = Map.empty, cell_data = Map.empty\<rparr>"

text \<open>A triangle whose corners all lie at the origin: a mesh with one cell and radius 0.\<close>

definition ex_origin :: mesh where
  "ex_origin =
     \<lparr>kind = PolyData, points = [(0, 0, 0), (0, 0, 0), (0, 0, 0)], cells = [[0, 1, 2]],
      point_data = Map.empty, cell_data = Map.empty\<rparr>"

text \<open>The dataset that the filter returns for the example triangle and the meridian 0.\<close>

definition ex_split :: mesh where
  "ex_split =
     \<lparr>kind = PolyData,
      points = [(1, - 3, 0), (1, 3, 0), (1, 0, 3), (1, 0, 0)],
      cells = [[0, 3, 2], [3, 1, 2]],
      point_data = [''gvOriginalPointIds'' \<mapsto> [0, 1, 2, 0], ''BoundaryPoints'' \<mapsto> [0, 0, 1, 1]],
      cell_data = [''gvOriginalCellIds'' \<mapsto> [0, 0]]\<rparr>"

text \<open>The three datasets that \<^verbatim>\<open>remesh\<close> returns for it when the mask is not asked for.\<close>

definition ex_remeshed :: mesh where
  "ex_remeshed =
     \<lparr>kind = PolyData,
      points = [(1, - 3, 0), (1, 3, 0), (1, 0, 3), (1, 0, 0)],
      cells = [[0, 3, 2], [3, 1, 2]],
      point_data = [''gvOriginalPointIds'' \<mapsto> [0, 1, 2, 0]],
      cell_data = [''gvOriginalCellIds'' \<mapsto> [0, 0]]\<rparr>"

definition ex_west :: mesh where
  "ex_west =
     \<lparr>kind = PolyData,
      points = [(1, - 3, 0), (1, 0, 3), (1, 0, 0)],
      cells = [[0, 2, 1]],
      point_data = [''gvOriginalPointIds'' \<mapsto> [0, 2, 0], ''gvRemeshPointIds'' \<mapsto> [- 3, - 4, - 4]],
      cell_data = [''gvOriginalCellIds'' \<mapsto> [0]]\<rparr>"

definition ex_east :: mesh where
  "ex_east =
     \<lparr>kind = PolyData,
      points = [(1, 3, 0), (1, 0, 3), (1, 0, 0)],
      cells = [[2, 0, 1]],
      point_data = [''gvOriginalPointIds'' \<mapsto> [1, 2, 0], ''gvRemeshPointIds'' \<mapsto> [- 3, - 5, - 5]],
      cell_data = [''gvOriginalCellIds'' \<mapsto> [0]]\<rparr>"

section \<open>Basic facts\<close>

lemma tag_geometry:
  "points (tag env m) = points m \<and> cells (tag env m) = cells m \<and> kind (tag env m) = kind m"
  by (simp add: tag_def Let_def)

lemma n_tag: "n_cells (tag env m) = n_cells m \<and> n_points (tag env m) = n_points m"
  by (simp add: n_cells_def n_points_def tag_geometry)

lemma arange_nth: "i < n \<Longrightarrow> arange n ! i = int i"
  by (simp add: arange_def)

lemma cast_not_grid:
  "kind m \<noteq> UnstructuredGrid \<Longrightarrow>
     cast_UnstructuredGrid_to_PolyData env m c =
       Inl (AttributeError (''type object '' @ class_name (kind m) @ '' has no attribute split''))"
  by (simp add: cast_UnstructuredGrid_to_PolyData_def type_split_def)

lemma cast_grid:
  "kind m = UnstructuredGrid \<Longrightarrow>
     cast_UnstructuredGrid_to_PolyData env m False = Inr (m\<lparr>kind := PolyData\<rparr>)"
  by (simp add: cast_UnstructuredGrid_to_PolyData_def vtkGeometryFilter_def)


lemma east_mask_nth: "i < length delta \<Longrightarrow> east_mask delta ! i = (\<not> west_mask delta ! i)"
  by (simp add: east_mask_def west_mask_def lower_mask_def upper_mask_def)

lemma length_masks: "length (west_mask delta) = length delta \<and> length (east_mask delta) = length delta"
  by (simp add: east_mask_def west_mask_def lower_mask_def upper_mask_def)

lemma set_kept:
  "set (filter (\<lambda>i. i < n_cells m) (filter (\<lambda>i. ind ! i) [0..<length ind])) = kept_ids m ind"
  by (auto simp: kept_ids_def)



lemma longitude_1_m1: "longitude 1 (- 1) = - 45"
  by (simp add: longitude_def arctan_minus arctan_one)

lemma longitude_1_1: "longitude 1 1 = 45"
  by (simp add: longitude_def arctan_one)

lemma ex_lons: "map fst (to_xy0 ex_env (cell_centers ex_env ex_split)) = [- 45, 45]"
  by (simp add: ex_env_def ex_to_xy0_def ex_cell_centers_def ex_split_def centroid_def
      longitude_1_m1 longitude_1_1)

lemma ex_deltas: "deltas ex_env ex_split 0 = [- 45, 45]"
  unfolding deltas_def Let_def ex_lons by (simp add: ex_env_def)

section \<open>Facts about the extraction of cells and the two passes\<close>

lemma kind_extract: "kind (extract_cells m ind) = UnstructuredGrid"
  by (simp add: extract_cells_def Let_def)

lemma length_cells_extract:
  "length (cells (extract_cells m ind)) = length (nths (cells m) (kept_ids m ind))"
  unfolding extract_cells_def Let_def set_kept by simp

lemma n_cells_extract: "n_cells (extract_cells m ind) = length (nths (cells m) (kept_ids m ind))"
  by (simp add: n_cells_def length_cells_extract)

lemma cell_data_extract:
  "name \<noteq> ''vtkOriginalCellIds'' \<Longrightarrow>
     cell_data (extract_cells m ind) name =
       map_option (\<lambda>a. nths a (kept_ids m ind)) (cell_data m name)"
  unfolding extract_cells_def Let_def set_kept by simp

lemma kept_ids_cells: "cells m' = cells m \<Longrightarrow> kept_ids m' ind = kept_ids m ind"
  by (simp add: kept_ids_def n_cells_def)

lemma nths_partition_mset:
  "\<forall>i<length xs. (i \<in> A) \<noteq> (i \<in> B) \<Longrightarrow> mset (nths xs A) + mset (nths xs B) = mset xs"
proof (induction xs arbitrary: A B)
  case Nil
  then show ?case by simp
next
  case (Cons x xs)
  have "\<forall>i<length xs. (i \<in> {j. Suc j \<in> A}) \<noteq> (i \<in> {j. Suc j \<in> B})"
    using Cons.prems by auto
  from Cons.IH [OF this]
  have ih: "mset (nths xs {j. Suc j \<in> A}) + mset (nths xs {j. Suc j \<in> B}) = mset xs" .
  have "(0 \<in> A) \<noteq> (0 \<in> B)" using Cons.prems by auto
  then show ?case using ih by (auto simp: nths_Cons)
qed

lemma nths_partition_length:
  assumes "\<forall>i<length xs. (i \<in> A) \<noteq> (i \<in> B)"
  shows "length (nths xs A) + length (nths xs B) = length xs"
proof -
  have "size (mset (nths xs A) + mset (nths xs B)) = size (mset xs)"
    using nths_partition_mset [OF assms] by simp
  then show ?thesis by simp
qed

lemma kept_partition:
  assumes "length delta = n_cells m"
  shows "\<forall>i<n_cells m. (i \<in> kept_ids m (west_mask delta)) \<noteq> (i \<in> kept_ids m (east_mask delta))"
  using assms length_masks [of delta] by (auto simp: kept_ids_def east_mask_nth)

lemma values_assign_where_ne: "set (assign_where_ne a s c) \<subseteq> {s, c}"
  by (auto simp: assign_where_ne_def)

lemma length_assign_where_ne: "length (assign_where_ne a s c) = length a"
  by (simp add: assign_where_ne_def)

lemma length_nths_same: "length xs = length ys \<Longrightarrow> length (nths xs S) = length (nths ys S)"
  by (simp add: length_nths)

lemma length_nths_filter:
  "length (nths xs (set (filter P [0..<length xs]))) = length (filter P [0..<length xs])"
proof -
  have d: "distinct (filter P [0..<length xs])"
    by simp
  have "{i. i < length xs \<and> i \<in> set (filter P [0..<length xs])} = set (filter P [0..<length xs])"
    by auto
  then have "length (nths xs (set (filter P [0..<length xs]))) = card (set (filter P [0..<length xs]))"
    unfolding length_nths by simp
  also have "\<dots> = length (filter P [0..<length xs])"
    using d by (rule distinct_card)
  finally show ?thesis .
qed

lemma point_array_extract_length:
  assumes "point_data m name = Some a" and "length a = n_points m"
  shows "\<exists>b. point_data (extract_cells m ind) name = Some b \<and>
             length b = n_points (extract_cells m ind)"
proof (cases "name = ''vtkOriginalPointIds''")
  case True
  then show ?thesis
    unfolding extract_cells_def Let_def n_points_def
    using length_nths_filter [of "points m"] by simp
next
  case False
  have "length a = length (points m)"
    using assms(2) by (simp add: n_points_def)
  then show ?thesis
    unfolding extract_cells_def Let_def n_points_def
    using False assms(1) length_nths_same [of a "points m"] by simp
qed

lemma seam_pass_Inr:
  assumes "seam_pass env r bm side seam = Inr (r', h)"
    and "cell_data r (GV_REMESH_POINT_IDS env) = None"
    and "GV_REMESH_POINT_IDS env \<noteq> ''vtkOriginalCellIds''"
  shows "\<exists>ids hids. point_data r (GV_REMESH_POINT_IDS env) = Some ids \<and> length bm = length ids \<and>
           r' = r\<lparr>point_data := (point_data r)(GV_REMESH_POINT_IDS env \<mapsto>
                   map2 (\<lambda>v b. if b then seam else v) ids bm)\<rparr> \<and>
           point_data (extract_cells r' side) (GV_REMESH_POINT_IDS env) = Some hids \<and>
           h = (extract_cells r' side)\<lparr>kind := PolyData,
                 point_data := (point_data (extract_cells r' side))(GV_REMESH_POINT_IDS env \<mapsto>
                   assign_where_ne hids seam (REMESH_JOIN env))\<rparr>"
proof -
  from assms(1,2) obtain ids where
    i: "point_data r (GV_REMESH_POINT_IDS env) = Some ids"
    by (auto simp: seam_pass_def get_array_def split: option.splits)
  have g: "get_array r (GV_REMESH_POINT_IDS env) = Inr (POINT, ids)"
    using i assms(2) by (simp add: get_array_def)
  from assms(1) g have lb: "length bm = length ids"
    by (auto simp: seam_pass_def assign_masked_def split: if_splits)
  define r1 where "r1 = r\<lparr>point_data := (point_data r)(GV_REMESH_POINT_IDS env \<mapsto>
                   map2 (\<lambda>v b. if b then seam else v) ids bm)\<rparr>"
  have am: "assign_masked ids bm seam = Inr (map2 (\<lambda>v b. if b then seam else v) ids bm)"
    using lb by (simp add: assign_masked_def)
  have sa: "set_array r POINT (GV_REMESH_POINT_IDS env) (map2 (\<lambda>v b. if b then seam else v) ids bm) = r1"
    by (simp add: set_array_def r1_def)
  have c: "cast_UnstructuredGrid_to_PolyData env (extract_cells r1 side) False =
             Inr ((extract_cells r1 side)\<lparr>kind := PolyData\<rparr>)"
    by (rule cast_grid) (rule kind_extract)
  have cd: "cell_data ((extract_cells r1 side)\<lparr>kind := PolyData\<rparr>) (GV_REMESH_POINT_IDS env) = None"
    using cell_data_extract [OF assms(3), of r1 side] assms(2) by (simp add: r1_def)
  have s: "seam_pass env r bm side seam =
      (case get_array ((extract_cells r1 side)\<lparr>kind := PolyData\<rparr>) (GV_REMESH_POINT_IDS env) of
         Inl e \<Rightarrow> Inl e
       | Inr (ha, hids) \<Rightarrow>
           Inr (r1, set_array ((extract_cells r1 side)\<lparr>kind := PolyData\<rparr>) ha (GV_REMESH_POINT_IDS env)
                  (assign_where_ne hids seam (REMESH_JOIN env))))"
    by (simp add: seam_pass_def g am sa c Let_def)
  from assms(1) s cd obtain hids where
    hi: "point_data (extract_cells r1 side) (GV_REMESH_POINT_IDS env) = Some hids"
    by (auto simp: get_array_def split: option.splits)
  have gh: "get_array ((extract_cells r1 side)\<lparr>kind := PolyData\<rparr>) (GV_REMESH_POINT_IDS env) =
      Inr (POINT, hids)"
    using hi cd by (simp add: get_array_def)
  have eq: "seam_pass env r bm side seam =
      Inr (r1, set_array ((extract_cells r1 side)\<lparr>kind := PolyData\<rparr>) POINT (GV_REMESH_POINT_IDS env)
                  (assign_where_ne hids seam (REMESH_JOIN env)))"
    unfolding s gh by simp
  from assms(1) [symmetric] eq
  have "Inr (r', h) =
      (Inr (r1, set_array ((extract_cells r1 side)\<lparr>kind := PolyData\<rparr>) POINT (GV_REMESH_POINT_IDS env)
                  (assign_where_ne hids seam (REMESH_JOIN env))) :: error + mesh \<times> mesh)"
    by (rule trans)
  then have e: "r' = r1" and
    h0: "h = set_array ((extract_cells r1 side)\<lparr>kind := PolyData\<rparr>) POINT (GV_REMESH_POINT_IDS env)
                  (assign_where_ne hids seam (REMESH_JOIN env))"
    by simp_all
  have h: "h = (extract_cells r1 side)\<lparr>kind := PolyData,
                 point_data := (point_data (extract_cells r1 side))(GV_REMESH_POINT_IDS env \<mapsto>
                   assign_where_ne hids seam (REMESH_JOIN env))\<rparr>"
    unfolding h0 by (simp add: set_array_def)
  show ?thesis
    using i lb e h hi unfolding r1_def by blast
qed

lemma seam_pass_remeshed:
  assumes "seam_pass env r bm side seam = Inr (r', h)"
    and "cell_data r (GV_REMESH_POINT_IDS env) = None"
    and "GV_REMESH_POINT_IDS env \<noteq> ''vtkOriginalCellIds''"
  shows "points r' = points r \<and> cells r' = cells r \<and> cell_data r' = cell_data r \<and>
         kind r' = kind r \<and> point_data r' (GV_REMESH_POINT_IDS env) \<noteq> None \<and>
         (\<forall>name. name \<noteq> GV_REMESH_POINT_IDS env \<longrightarrow> point_data r' name = point_data r name)"
  using seam_pass_Inr [OF assms] by auto

lemma seam_pass_half:
  assumes "seam_pass env r bm side seam = Inr (r', h)"
    and "cell_data r (GV_REMESH_POINT_IDS env) = None"
    and "GV_REMESH_POINT_IDS env \<noteq> ''vtkOriginalCellIds''"
  shows "n_cells h = length (nths (cells r) (kept_ids r side)) \<and>
         (\<forall>name. name \<noteq> ''vtkOriginalCellIds'' \<longrightarrow>
            cell_data h name = map_option (\<lambda>a. nths a (kept_ids r side)) (cell_data r name)) \<and>
         (\<exists>a. point_data h (GV_REMESH_POINT_IDS env) = Some a \<and> set a \<subseteq> {seam, REMESH_JOIN env})"
proof -
  from seam_pass_Inr [OF assms] obtain ids hids where
    r': "r' = r\<lparr>point_data := (point_data r)(GV_REMESH_POINT_IDS env \<mapsto>
                   map2 (\<lambda>v b. if b then seam else v) ids bm)\<rparr>" and
    h: "h = (extract_cells r' side)\<lparr>kind := PolyData,
                 point_data := (point_data (extract_cells r' side))(GV_REMESH_POINT_IDS env \<mapsto>
                   assign_where_ne hids seam (REMESH_JOIN env))\<rparr>"
    by blast
  have c: "cells r' = cells r" and cd: "cell_data r' = cell_data r"
    using r' by simp_all
  have k: "kept_ids r' side = kept_ids r side"
    using c by (rule kept_ids_cells)
  have 1: "n_cells h = length (nths (cells r) (kept_ids r side))"
    using h n_cells_extract [of r' side] c k by (simp add: n_cells_def)
  have 2: "\<forall>name. name \<noteq> ''vtkOriginalCellIds'' \<longrightarrow>
            cell_data h name = map_option (\<lambda>a. nths a (kept_ids r side)) (cell_data r name)"
    using h cell_data_extract [of _ r' side] cd k by simp
  have 3: "\<exists>a. point_data h (GV_REMESH_POINT_IDS env) = Some a \<and> set a \<subseteq> {seam, REMESH_JOIN env}"
    using h values_assign_where_ne [of hids seam "REMESH_JOIN env"] by simp
  show ?thesis using 1 2 3 by blast
qed

lemma seam_pass_lengths:
  assumes "seam_pass env r bm side seam = Inr (r', h)"
    and "cell_data r (GV_REMESH_POINT_IDS env) = None"
    and "GV_REMESH_POINT_IDS env \<noteq> ''vtkOriginalCellIds''"
    and "point_data r (GV_REMESH_POINT_IDS env) = Some ids" and "length ids = n_points r"
  shows "length bm = n_points r \<and>
         (\<exists>ids'. point_data r' (GV_REMESH_POINT_IDS env) = Some ids' \<and> length ids' = n_points r') \<and>
         (\<exists>a. point_data h (GV_REMESH_POINT_IDS env) = Some a \<and> length a = n_points h)"
proof -
  from seam_pass_Inr [OF assms(1-3)] obtain ids0 hids where
    i0: "point_data r (GV_REMESH_POINT_IDS env) = Some ids0" and
    lb: "length bm = length ids0" and
    r': "r' = r\<lparr>point_data := (point_data r)(GV_REMESH_POINT_IDS env \<mapsto>
                   map2 (\<lambda>v b. if b then seam else v) ids0 bm)\<rparr>" and
    hi: "point_data (extract_cells r' side) (GV_REMESH_POINT_IDS env) = Some hids" and
    h: "h = (extract_cells r' side)\<lparr>kind := PolyData,
                 point_data := (point_data (extract_cells r' side))(GV_REMESH_POINT_IDS env \<mapsto>
                   assign_where_ne hids seam (REMESH_JOIN env))\<rparr>"
    by blast
  have e: "ids0 = ids" using i0 assms(4) by simp
  have 1: "length bm = n_points r" using lb e assms(5) by simp
  have n': "n_points r' = n_points r" using r' by (simp add: n_points_def)
  have a': "point_data r' (GV_REMESH_POINT_IDS env) =
              Some (map2 (\<lambda>v b. if b then seam else v) ids0 bm)"
    using r' by simp
  have l': "length (map2 (\<lambda>v b. if b then seam else v) ids0 bm) = n_points r'"
    using lb e assms(5) n' by simp
  from point_array_extract_length [OF a' l', of side] hi
  have lh: "length hids = n_points (extract_cells r' side)" by simp
  have 3: "\<exists>a. point_data h (GV_REMESH_POINT_IDS env) = Some a \<and> length a = n_points h"
    using h lh by (simp add: n_points_def length_assign_where_ne)
  show ?thesis using 1 a' l' 3 by blast
qed

lemma set_array_frame:
  "points (set_array m a name v) = points m \<and> cells (set_array m a name v) = cells m \<and>
   (\<forall>n. n \<noteq> name \<longrightarrow> point_data (set_array m a name v) n = point_data m n)"
  by (cases a) (simp_all add: set_array_def)

lemma seam_pass_point_frame:
  assumes "seam_pass env r bm side seam = Inr (r', h)"
  shows "points r' = points r \<and> cells r' = cells r \<and>
         (\<forall>name. name \<noteq> GV_REMESH_POINT_IDS env \<longrightarrow> point_data r' name = point_data r name)"
proof -
  from assms obtain a ids' where "r' = set_array r a (GV_REMESH_POINT_IDS env) ids'"
    by (auto simp: seam_pass_def Let_def split: sum.splits prod.splits)
  then show ?thesis using set_array_frame by simp
qed

lemma split_halves_steps:
  assumes "split_halves env r0 m boundary = Inr t"
  shows "\<exists>bp a pids r2 r3 w0 r4 e0.
           point_data r0 VTK_BOUNDARY_MASK = Some bp \<and>
           get_array (if \<not> boundary
                       then r0\<lparr>point_data := (point_data r0)(VTK_BOUNDARY_MASK := None)\<rparr>
                       else r0) (GV_POINT_IDS env) = Inr (a, pids) \<and>
           point_data_setitem (if \<not> boundary
                       then r0\<lparr>point_data := (point_data r0)(VTK_BOUNDARY_MASK := None)\<rparr>
                       else r0) (GV_REMESH_POINT_IDS env) pids = Inr r2 \<and>
           seam_pass env r2 (asarray_bool bp) (west_mask (deltas env r0 m)) (REMESH_SEAM env) =
             Inr (r3, w0) \<and>
           seam_pass env r3 (asarray_bool bp) (east_mask (deltas env r0 m)) (REMESH_SEAM_EAST env) =
             Inr (r4, e0) \<and>
           t = sanitize_data env
                 (r4\<lparr>point_data := (point_data r4)(GV_REMESH_POINT_IDS env := None)\<rparr>, w0, e0)"
  using assms unfolding split_halves_def Let_def
  by (auto split: option.splits sum.splits prod.splits split del: if_split)

lemma remesh_result:
  assumes "wrap env meridian = m # ms" and "n_cells mesh \<noteq> 0"
  shows "fst (remesh env mesh meridian boundary check warnings display) =
           (if n_cells (intersected env mesh m check) = 0
            then Inr (intersected env mesh m check, empty_PolyData, empty_PolyData)
            else split_halves env (intersected env mesh m check) m boundary)"
  using assms by (simp add: remesh_def intersected_def Let_def)

lemma split_halves_point_frame:
  assumes "split_halves env r0 m boundary = Inr t"
  shows "\<exists>r5 w0 e0.
     t = sanitize_data env (r5, w0, e0) \<and>
     point_data r0 VTK_BOUNDARY_MASK \<noteq> None \<and>
     point_data r5 (GV_REMESH_POINT_IDS env) = None \<and>
     (\<forall>name. name \<noteq> GV_REMESH_POINT_IDS env \<longrightarrow>
        point_data r5 name =
          (if \<not> boundary \<and> name = VTK_BOUNDARY_MASK then None else point_data r0 name))"
proof -
  define r1 where
    "r1 = (if \<not> boundary
           then r0\<lparr>point_data := (point_data r0)(VTK_BOUNDARY_MASK := None)\<rparr> else r0)"
  from split_halves_steps [OF assms, folded r1_def]
  obtain bp a pids r2 r3 w0 r4 e0 where
    bp: "point_data r0 VTK_BOUNDARY_MASK = Some bp" and
    set: "point_data_setitem r1 (GV_REMESH_POINT_IDS env) pids = Inr r2" and
    west: "seam_pass env r2 (asarray_bool bp) (west_mask (deltas env r0 m)) (REMESH_SEAM env) =
             Inr (r3, w0)" and
    east: "seam_pass env r3 (asarray_bool bp) (east_mask (deltas env r0 m))
             (REMESH_SEAM_EAST env) = Inr (r4, e0)" and
    t: "t = sanitize_data env
              (r4\<lparr>point_data := (point_data r4)(GV_REMESH_POINT_IDS env := None)\<rparr>, w0, e0)"
    by blast
  define r5 where "r5 = r4\<lparr>point_data := (point_data r4)(GV_REMESH_POINT_IDS env := None)\<rparr>"
  have p1: "\<forall>name. point_data r1 name =
      (if \<not> boundary \<and> name = VTK_BOUNDARY_MASK then None else point_data r0 name)"
    by (simp add: r1_def)
  have r2: "r2 = r1\<lparr>point_data := (point_data r1)(GV_REMESH_POINT_IDS env \<mapsto> pids)\<rparr>"
    using set by (simp add: point_data_setitem_def split: if_splits)
  have p2: "\<forall>name. name \<noteq> GV_REMESH_POINT_IDS env \<longrightarrow> point_data r2 name = point_data r1 name"
    by (simp add: r2)
  note s3 = seam_pass_point_frame [OF west]
  note s4 = seam_pass_point_frame [OF east]
  have p5: "\<forall>name. name \<noteq> GV_REMESH_POINT_IDS env \<longrightarrow>
        point_data r5 name =
          (if \<not> boundary \<and> name = VTK_BOUNDARY_MASK then None else point_data r0 name)"
    using s4 s3 p2 p1 by (simp add: r5_def)
  have n5: "point_data r5 (GV_REMESH_POINT_IDS env) = None"
    by (simp add: r5_def)
  have b: "point_data r0 VTK_BOUNDARY_MASK \<noteq> None"
    using bp by simp
  show ?thesis
    using t [folded r5_def] b n5 p5 by blast
qed

lemma split_halves_facts:
  assumes "split_halves env r0 m boundary = Inr t"
    and "cell_data r0 (GV_REMESH_POINT_IDS env) = None"
    and "GV_REMESH_POINT_IDS env \<noteq> ''vtkOriginalCellIds''"
  shows "\<exists>r5 w0 e0.
     t = sanitize_data env (r5, w0, e0) \<and>
     points r5 = points r0 \<and> cells r5 = cells r0 \<and> cell_data r5 = cell_data r0 \<and>
     n_cells w0 = length (nths (cells r0) (kept_ids r0 (west_mask (deltas env r0 m)))) \<and>
     n_cells e0 = length (nths (cells r0) (kept_ids r0 (east_mask (deltas env r0 m)))) \<and>
     (\<forall>name. name \<noteq> ''vtkOriginalCellIds'' \<longrightarrow>
        cell_data w0 name =
          map_option (\<lambda>a. nths a (kept_ids r0 (west_mask (deltas env r0 m)))) (cell_data r0 name)) \<and>
     (\<forall>name. name \<noteq> ''vtkOriginalCellIds'' \<longrightarrow>
        cell_data e0 name =
          map_option (\<lambda>a. nths a (kept_ids r0 (east_mask (deltas env r0 m)))) (cell_data r0 name)) \<and>
     (\<exists>a. point_data w0 (GV_REMESH_POINT_IDS env) = Some a \<and>
          set a \<subseteq> {REMESH_SEAM env, REMESH_JOIN env} \<and> length a = n_points w0) \<and>
     (\<exists>a. point_data e0 (GV_REMESH_POINT_IDS env) = Some a \<and>
          set a \<subseteq> {REMESH_SEAM_EAST env, REMESH_JOIN env} \<and> length a = n_points e0)"
proof -
  define r1 where
    "r1 = (if \<not> boundary
           then r0\<lparr>point_data := (point_data r0)(VTK_BOUNDARY_MASK := None)\<rparr> else r0)"
  from split_halves_steps [OF assms(1), folded r1_def]
  obtain bp a pids r2 r3 w0 r4 e0 where
    bp: "point_data r0 VTK_BOUNDARY_MASK = Some bp" and
    set: "point_data_setitem r1 (GV_REMESH_POINT_IDS env) pids = Inr r2" and
    west: "seam_pass env r2 (asarray_bool bp) (west_mask (deltas env r0 m)) (REMESH_SEAM env) =
             Inr (r3, w0)" and
    east: "seam_pass env r3 (asarray_bool bp) (east_mask (deltas env r0 m))
             (REMESH_SEAM_EAST env) = Inr (r4, e0)" and
    t: "t = sanitize_data env
              (r4\<lparr>point_data := (point_data r4)(GV_REMESH_POINT_IDS env := None)\<rparr>, w0, e0)"
    by blast
  define r5 where "r5 = r4\<lparr>point_data := (point_data r4)(GV_REMESH_POINT_IDS env := None)\<rparr>"
  have g1: "points r1 = points r0 \<and> cells r1 = cells r0 \<and> cell_data r1 = cell_data r0"
    by (simp add: r1_def)
  have r2: "r2 = r1\<lparr>point_data := (point_data r1)(GV_REMESH_POINT_IDS env \<mapsto> pids)\<rparr>"
    and lp: "length pids = n_points r1"
    using set by (simp_all add: point_data_setitem_def split: if_splits)
  have g2: "points r2 = points r0 \<and> cells r2 = cells r0 \<and> cell_data r2 = cell_data r0"
    using g1 by (simp add: r2)
  have c2: "cell_data r2 (GV_REMESH_POINT_IDS env) = None"
    using g2 assms(2) by simp
  note s3 = seam_pass_remeshed [OF west c2 assms(3)]
  have g3: "points r3 = points r0 \<and> cells r3 = cells r0 \<and> cell_data r3 = cell_data r0"
    using s3 g2 by simp
  have c3: "cell_data r3 (GV_REMESH_POINT_IDS env) = None"
    using g3 assms(2) by simp
  note s4 = seam_pass_remeshed [OF east c3 assms(3)]
  note hw = seam_pass_half [OF west c2 assms(3)]
  note he = seam_pass_half [OF east c3 assms(3)]
  have g5: "points r5 = points r0 \<and> cells r5 = cells r0 \<and> cell_data r5 = cell_data r0"
    using s4 g3 by (simp add: r5_def)
  have k2: "kept_ids r2 (west_mask (deltas env r0 m)) = kept_ids r0 (west_mask (deltas env r0 m))"
    by (rule kept_ids_cells) (simp add: g2)
  have k3: "kept_ids r3 (east_mask (deltas env r0 m)) = kept_ids r0 (east_mask (deltas env r0 m))"
    by (rule kept_ids_cells) (simp add: g3)
  have w1: "n_cells w0 = length (nths (cells r0) (kept_ids r0 (west_mask (deltas env r0 m))))"
    using hw g2 k2 by simp
  have e1: "n_cells e0 = length (nths (cells r0) (kept_ids r0 (east_mask (deltas env r0 m))))"
    using he g3 k3 by simp
  have w2: "\<forall>name. name \<noteq> ''vtkOriginalCellIds'' \<longrightarrow>
        cell_data w0 name =
          map_option (\<lambda>a. nths a (kept_ids r0 (west_mask (deltas env r0 m)))) (cell_data r0 name)"
    using hw g2 k2 by simp
  have e2: "\<forall>name. name \<noteq> ''vtkOriginalCellIds'' \<longrightarrow>
        cell_data e0 name =
          map_option (\<lambda>a. nths a (kept_ids r0 (east_mask (deltas env r0 m)))) (cell_data r0 name)"
    using he g3 k3 by simp
  have a2: "point_data r2 (GV_REMESH_POINT_IDS env) = Some pids"
    by (simp add: r2)
  have l2: "length pids = n_points r2"
    using lp by (simp add: r2 n_points_def)
  from seam_pass_lengths [OF west c2 assms(3) a2 l2]
  obtain ids3 where a3: "point_data r3 (GV_REMESH_POINT_IDS env) = Some ids3"
    and l3: "length ids3 = n_points r3"
    and lw: "\<exists>a. point_data w0 (GV_REMESH_POINT_IDS env) = Some a \<and> length a = n_points w0"
    by blast
  from seam_pass_lengths [OF east c3 assms(3) a3 l3]
  have le: "\<exists>a. point_data e0 (GV_REMESH_POINT_IDS env) = Some a \<and> length a = n_points e0"
    by blast
  have w3: "\<exists>a. point_data w0 (GV_REMESH_POINT_IDS env) = Some a \<and>
          set a \<subseteq> {REMESH_SEAM env, REMESH_JOIN env} \<and> length a = n_points w0"
    using hw lw by auto
  have e3: "\<exists>a. point_data e0 (GV_REMESH_POINT_IDS env) = Some a \<and>
          set a \<subseteq> {REMESH_SEAM_EAST env, REMESH_JOIN env} \<and> length a = n_points e0"
    using he le by auto
  show ?thesis
    apply (rule exI [of _ r5], rule exI [of _ w0], rule exI [of _ e0])
    apply (insert t [folded r5_def] g5 w1 e1 w2 e2 w3 e3)
    apply (elim conjE)
    apply (intro conjI)
    apply assumption+
    done
qed

section \<open>The example, evaluated\<close>

lemma ex_names:
  "GV_CELL_IDS ex_env = ''gvOriginalCellIds'' \<and> GV_POINT_IDS ex_env = ''gvOriginalPointIds'' \<and>
   GV_REMESH_POINT_IDS ex_env = ''gvRemeshPointIds'' \<and> REMESH_JOIN ex_env = - 3 \<and>
   REMESH_SEAM ex_env = - 4 \<and> REMESH_SEAM_EAST ex_env = - 5"
  by (simp add: ex_env_def REMESH_SEAM_EAST_def)

lemma ex_normalized:
  "normalized ex_env ex_mesh =
     ex_mesh\<lparr>cell_data := [''gvOriginalCellIds'' \<mapsto> [0]],
             point_data := [''gvOriginalPointIds'' \<mapsto> [0, 1, 2]]\<rparr>"
  by (simp add: normalized_def tag_def ex_env_def ex_mesh_def Let_def arange_def n_cells_def
      n_points_def ex_triangle_def upt_conv_Cons)

lemma ex_radius: "calculate_radius ex_env ex_mesh = sqrt 10"
  by (simp add: ex_env_def ex_calculate_radius_def ex_mesh_def ex_triangle_def)

lemma ex_wrap_0: "wrap ex_env 0 = [0]"
  by (simp add: ex_env_def ex_wrap_def)

lemma ex_wrap_180: "wrap ex_env 180 = [- 180]"
  by (simp add: ex_env_def ex_wrap_def)

lemma ex_plane_points:
  "points (cutting_plane ex_env radius 0) =
     [(0, 0, - radius), (radius, 0, - radius), (0, 0, radius), (radius, 0, radius)]"
  by (simp add: cutting_plane_def ex_env_def ex_Plane_def ex_rotate_z_def ex_triangulate_def Let_def)

lemma ex_plane_points_180:
  "points (cutting_plane ex_env radius (- 180)) =
     [(0, 0, - radius), (- radius, 0, - radius), (0, 0, radius), (- radius, 0, radius)]"
  by (simp add: cutting_plane_def ex_env_def ex_Plane_def ex_rotate_z_def ex_triangulate_def Let_def)

lemma ex_plane_cells: "cells (cutting_plane ex_env radius meridian) = [[0, 1, 3], [0, 3, 2]]"
  by (simp add: cutting_plane_def ex_env_def ex_Plane_def ex_rotate_z_def ex_triangulate_def
      Let_def fan_def)

lemma sqrt10_neg: "\<not> sqrt 10 \<le> - 1"
proof -
  have "0 \<le> sqrt 10" by simp
  then show ?thesis by linarith
qed

lemma ex_intersected: "intersected ex_env ex_mesh 0 check = ex_split"
proof -
  have f: "vtkIntersectionPolyDataFilter ex_env = ex_filter"
    by (simp add: ex_env_def)
  show ?thesis
    unfolding intersected_def ex_normalized ex_radius f
    by (simp add: ex_filter_def ex_plane_points ex_mesh_def ex_split_def ex_triangle_def
        VTK_BOUNDARY_MASK_def fun_eq_iff)
qed

lemma ex_intersected_180: "intersected ex_env ex_mesh (- 180) check = empty_PolyData"
proof -
  have f: "vtkIntersectionPolyDataFilter ex_env = ex_filter"
    by (simp add: ex_env_def)
  show ?thesis
    unfolding intersected_def ex_normalized ex_radius f
    by (simp add: ex_filter_def ex_plane_points_180 sqrt10_neg)
qed

lemma ex_origin_radius: "calculate_radius ex_env ex_origin = 0"
  by (simp add: ex_env_def ex_calculate_radius_def ex_origin_def)

lemma ex_intersected_origin: "intersected ex_env ex_origin 0 check = empty_PolyData"
proof -
  have f: "vtkIntersectionPolyDataFilter ex_env = ex_filter"
    by (simp add: ex_env_def)
  have p: "points (normalized ex_env ex_origin) \<noteq> ex_triangle"
    by (simp add: normalized_def tag_def Let_def ex_origin_def ex_triangle_def ex_env_def
        ex_triangulate_def)
  show ?thesis
    unfolding intersected_def f using p by (simp add: ex_filter_def)
qed

lemma ex_n_cells: "n_cells ex_mesh = 1 \<and> n_cells ex_origin = 1 \<and> n_cells ex_split = 2 \<and>
    n_cells empty_PolyData = 0 \<and> n_points empty_PolyData = 0"
  by (simp add: n_cells_def n_points_def ex_mesh_def ex_origin_def ex_split_def empty_PolyData_def)

lemma ex_remesh_180:
  "fst (remesh ex_env ex_mesh 180 boundary check warnings display) =
     Inr (empty_PolyData, empty_PolyData, empty_PolyData)"
  using remesh_result [OF ex_wrap_180, of ex_mesh boundary check warnings display]
  by (simp add: ex_intersected_180 ex_n_cells)

lemma ex_remesh_origin:
  "fst (remesh ex_env ex_origin 0 boundary check warnings display) =
     Inr (empty_PolyData, empty_PolyData, empty_PolyData)"
  using remesh_result [OF ex_wrap_0, of ex_origin boundary check warnings display]
  by (simp add: ex_intersected_origin ex_n_cells)

lemma ex_sanitize_frame: "sanitize_frame ex_env"
  by (simp add: sanitize_frame_def same_frame_def reserved_def ex_env_def ex_sanitize_data_def
      purge_def VTK_BOUNDARY_MASK_def)

lemma ex_masks:
  "west_mask [- 45, 45] = [True, False] \<and> east_mask [- 45, 45] = [False, True]"
  by (simp add: west_mask_def east_mask_def lower_mask_def upper_mask_def)

lemma ex_extract_first:
  assumes p: "points m = [p0, p1, p2, p3]" and c: "cells m = [[0, 3, 2], [3, 1, 2]]"
  shows "extract_cells m [True, False] =
     \<lparr>kind = UnstructuredGrid, points = [p0, p2, p3], cells = [[0, 2, 1]],
      point_data = (\<lambda>name. map_option (\<lambda>a. nths a {0, 2, 3}) (point_data m name))
                     (''vtkOriginalPointIds'' \<mapsto> [0, 2, 3]),
      cell_data = (\<lambda>name. map_option (\<lambda>a. nths a {0}) (cell_data m name))
                     (''vtkOriginalCellIds'' \<mapsto> [0])\<rparr>"
proof -
  have ids: "filter (\<lambda>i. [True, False] ! i) [0..<length [True, False]] = [0]"
    by (simp add: upt_conv_Cons)
  have kept: "filter (\<lambda>i. i < n_cells m) [0] = [0]"
    using c by (simp add: n_cells_def)
  have faces: "nths (cells m) (set [0]) = [[0, 3, 2]]"
    by (simp add: c nths_Cons)
  have used: "filter (\<lambda>p. p \<in> set (concat [[0, 3, 2]])) [0..<n_points m] = [0, 2, 3]"
    by (simp add: n_points_def p upt_conv_Cons)
  have pts: "nths (points m) (set [0, 2, 3]) = [p0, p2, p3]"
    by (simp add: p nths_Cons)
  have cs: "map (map (\<lambda>p. length (filter (\<lambda>q. q < p) [0, 2, 3 :: nat]))) [[0, 3, 2]] = [[0, 2, 1 :: nat]]"
    by simp
  show ?thesis
    unfolding extract_cells_def Let_def ids kept faces used pts cs by simp
qed

lemma ex_extract_second:
  assumes p: "points m = [p0, p1, p2, p3]" and c: "cells m = [[0, 3, 2], [3, 1, 2]]"
  shows "extract_cells m [False, True] =
     \<lparr>kind = UnstructuredGrid, points = [p1, p2, p3], cells = [[2, 0, 1]],
      point_data = (\<lambda>name. map_option (\<lambda>a. nths a {1, 2, 3}) (point_data m name))
                     (''vtkOriginalPointIds'' \<mapsto> [1, 2, 3]),
      cell_data = (\<lambda>name. map_option (\<lambda>a. nths a {1}) (cell_data m name))
                     (''vtkOriginalCellIds'' \<mapsto> [1])\<rparr>"
proof -
  have ids: "filter (\<lambda>i. [False, True] ! i) [0..<length [False, True]] = [1]"
    by (simp add: upt_conv_Cons)
  have kept: "filter (\<lambda>i. i < n_cells m) [1] = [1]"
    using c by (simp add: n_cells_def)
  have faces: "nths (cells m) (set [1]) = [[3, 1, 2]]"
    by (simp add: c nths_Cons)
  have used: "filter (\<lambda>p. p \<in> set (concat [[3, 1, 2]])) [0..<n_points m] = [1, 2, 3]"
    by (simp add: n_points_def p upt_conv_Cons)
  have pts: "nths (points m) (set [1, 2, 3]) = [p1, p2, p3]"
    by (simp add: p nths_Cons)
  have cs: "map (map (\<lambda>p. length (filter (\<lambda>q. q < p) [1, 2, 3 :: nat]))) [[3, 1, 2]] = [[2, 0, 1 :: nat]]"
    by simp
  show ?thesis
    unfolding extract_cells_def Let_def ids kept faces used pts cs by simp
qed

lemma ex_nths:
  "nths [a, b, c, d] {0, 2, 3} = [a, c, d] \<and> nths [a, b, c, d] {1, 2, 3} = [b, c, d] \<and>
   nths [a, b] {0} = [a] \<and> nths [a, b] {1} = [b] \<and>
   nths [a, b, c, d] {Suc 0, 2, 3} = [b, c, d] \<and> nths [a, b] {Suc 0} = [b]"
  by (simp add: nths_Cons)

lemma ex_west_pass:
  "seam_pass ex_env
     \<lparr>kind = PolyData, points = [(1, - 3, 0), (1, 3, 0), (1, 0, 3), (1, 0, 0)],
      cells = [[0, 3, 2], [3, 1, 2]],
      point_data = [''gvOriginalPointIds'' \<mapsto> [0, 1, 2, 0], ''gvRemeshPointIds'' \<mapsto> [0, 1, 2, 0]],
      cell_data = [''gvOriginalCellIds'' \<mapsto> [0, 0]]\<rparr>
     [False, False, True, True] [True, False] (- 4) =
   Inr (\<lparr>kind = PolyData, points = [(1, - 3, 0), (1, 3, 0), (1, 0, 3), (1, 0, 0)],
         cells = [[0, 3, 2], [3, 1, 2]],
         point_data = [''gvOriginalPointIds'' \<mapsto> [0, 1, 2, 0],
                       ''gvRemeshPointIds'' \<mapsto> [0, 1, - 4, - 4]],
         cell_data = [''gvOriginalCellIds'' \<mapsto> [0, 0]]\<rparr>,
        \<lparr>kind = PolyData, points = [(1, - 3, 0), (1, 0, 3), (1, 0, 0)], cells = [[0, 2, 1]],
         point_data = [''gvOriginalPointIds'' \<mapsto> [0, 2, 0],
                       ''vtkOriginalPointIds'' \<mapsto> [0, 2, 3],
                       ''gvRemeshPointIds'' \<mapsto> [- 3, - 4, - 4]],
         cell_data = [''gvOriginalCellIds'' \<mapsto> [0], ''vtkOriginalCellIds'' \<mapsto> [0]]\<rparr>)"
  by (simp add: seam_pass_def get_array_def set_array_def ex_names assign_masked_def Let_def
      ex_extract_first cast_UnstructuredGrid_to_PolyData_def vtkGeometryFilter_def assign_where_ne_def ex_nths
      fun_eq_iff)

lemma ex_east_pass:
  "seam_pass ex_env
     \<lparr>kind = PolyData, points = [(1, - 3, 0), (1, 3, 0), (1, 0, 3), (1, 0, 0)],
      cells = [[0, 3, 2], [3, 1, 2]],
      point_data = [''gvOriginalPointIds'' \<mapsto> [0, 1, 2, 0],
                    ''gvRemeshPointIds'' \<mapsto> [0, 1, - 4, - 4]],
      cell_data = [''gvOriginalCellIds'' \<mapsto> [0, 0]]\<rparr>
     [False, False, True, True] [False, True] (- 5) =
   Inr (\<lparr>kind = PolyData, points = [(1, - 3, 0), (1, 3, 0), (1, 0, 3), (1, 0, 0)],
         cells = [[0, 3, 2], [3, 1, 2]],
         point_data = [''gvOriginalPointIds'' \<mapsto> [0, 1, 2, 0],
                       ''gvRemeshPointIds'' \<mapsto> [0, 1, - 5, - 5]],
         cell_data = [''gvOriginalCellIds'' \<mapsto> [0, 0]]\<rparr>,
        \<lparr>kind = PolyData, points = [(1, 3, 0), (1, 0, 3), (1, 0, 0)], cells = [[2, 0, 1]],
         point_data = [''gvOriginalPointIds'' \<mapsto> [1, 2, 0],
                       ''vtkOriginalPointIds'' \<mapsto> [1, 2, 3],
                       ''gvRemeshPointIds'' \<mapsto> [- 3, - 5, - 5]],
         cell_data = [''gvOriginalCellIds'' \<mapsto> [0], ''vtkOriginalCellIds'' \<mapsto> [1]]\<rparr>)"
  by (simp add: seam_pass_def get_array_def set_array_def ex_names assign_masked_def Let_def
      ex_extract_second cast_UnstructuredGrid_to_PolyData_def vtkGeometryFilter_def assign_where_ne_def ex_nths
      fun_eq_iff)

lemma ex_split_halves: "split_halves ex_env ex_split 0 False = Inr (ex_remeshed, ex_west, ex_east)"
proof -
  have b: "point_data ex_split VTK_BOUNDARY_MASK = Some [0, 0, 1, 1]"
    by (simp add: ex_split_def VTK_BOUNDARY_MASK_def)
  have bm: "asarray_bool [0, 0, 1, 1] = [False, False, True, True]"
    by (simp add: asarray_bool_def)
  have p: "get_array (ex_split\<lparr>point_data := (point_data ex_split)(VTK_BOUNDARY_MASK := None)\<rparr>)
             (GV_POINT_IDS ex_env) = Inr (POINT, [0, 1, 2, 0])"
    by (simp add: get_array_def ex_split_def VTK_BOUNDARY_MASK_def ex_names)
  have r2: "point_data_setitem
              (ex_split\<lparr>point_data := (point_data ex_split)(VTK_BOUNDARY_MASK := None)\<rparr>)
              (GV_REMESH_POINT_IDS ex_env) [0, 1, 2, 0] =
     Inr \<lparr>kind = PolyData, points = [(1, - 3, 0), (1, 3, 0), (1, 0, 3), (1, 0, 0)],
      cells = [[0, 3, 2], [3, 1, 2]],
      point_data = [''gvOriginalPointIds'' \<mapsto> [0, 1, 2, 0], ''gvRemeshPointIds'' \<mapsto> [0, 1, 2, 0]],
      cell_data = [''gvOriginalCellIds'' \<mapsto> [0, 0]]\<rparr>"
    by (simp add: point_data_setitem_def n_points_def ex_split_def VTK_BOUNDARY_MASK_def ex_names
        fun_eq_iff)
  have s: "sanitize_data ex_env = ex_sanitize_data"
    by (simp add: ex_env_def)
  have n: "REMESH_SEAM ex_env = - 4 \<and> REMESH_SEAM_EAST ex_env = - 5"
    by (simp add: ex_names)
  show ?thesis
    unfolding split_halves_def Let_def ex_deltas ex_masks [THEN conjunct1] ex_masks [THEN conjunct2]
      b option.case bm if_True not_False_eq_True p r2 n [THEN conjunct1] n [THEN conjunct2]
      ex_west_pass ex_east_pass sum.case prod.case s
    by (simp add: ex_sanitize_data_def purge_def ex_remeshed_def ex_west_def ex_east_def ex_names
        fun_eq_iff)
qed

lemma ex_remesh_0:
  "fst (remesh ex_env ex_mesh 0 False check warnings display) = Inr (ex_remeshed, ex_west, ex_east)"
  using remesh_result [OF ex_wrap_0, of ex_mesh False check warnings display]
  by (simp add: ex_intersected ex_n_cells ex_split_halves)

section \<open>What an intersecting call returns\<close>

lemma remesh_Inr_cells:
  assumes "fst (remesh env mesh meridian boundary check warnings display) = Inr t"
  shows "n_cells mesh \<noteq> 0"
proof
  assume "n_cells mesh = 0"
  then have "fst (remesh env mesh meridian boundary check warnings display) =
      Inl (ValueError ''Cannot remesh an empty mesh'')"
    by (simp add: remesh_def Let_def)
  with assms show False by simp
qed

lemma remesh_split:
  assumes "wrap env meridian = m # ms"
    and "n_cells (intersected env mesh m check) \<noteq> 0"
    and "fst (remesh env mesh meridian boundary check warnings display) = Inr t"
  shows "split_halves env (intersected env mesh m check) m boundary = Inr t"
proof -
  have nc: "n_cells mesh \<noteq> 0"
    using assms(3) by (rule remesh_Inr_cells)
  show ?thesis
    using remesh_result [OF assms(1) nc, of boundary check warnings display] assms(2,3) by simp
qed

lemma sanitize_frame_fields:
  assumes "sanitize_frame env" and "(r, w, e) = sanitize_data env (r5, w0, e0)"
  shows "same_frame env r5 r \<and> same_frame env w0 w \<and> same_frame env e0 e"
proof -
  have "case sanitize_data env (r5, w0, e0) of
        (a', b', c') \<Rightarrow> same_frame env r5 a' \<and> same_frame env w0 b' \<and> same_frame env e0 c'"
    using assms(1) [unfolded sanitize_frame_def, rule_format, of r5 w0 e0] .
  then show ?thesis using assms(2) [symmetric] by simp
qed

lemma same_frame_fields:
  assumes "same_frame env a b"
  shows "points b = points a \<and> cells b = cells a \<and> n_points b = n_points a \<and>
         n_cells b = n_cells a \<and>
         cell_data b (GV_CELL_IDS env) = cell_data a (GV_CELL_IDS env) \<and>
         point_data b (GV_REMESH_POINT_IDS env) = point_data a (GV_REMESH_POINT_IDS env) \<and>
         point_data b VTK_BOUNDARY_MASK = point_data a VTK_BOUNDARY_MASK"
  using assms by (simp add: same_frame_def reserved_def n_points_def n_cells_def)

lemma remesh_point_outputs:
  assumes "wrap env meridian = m # ms"
    and "n_cells (intersected env mesh m check) \<noteq> 0"
    and "fst (remesh env mesh meridian boundary check warnings display) = Inr (r, w, e)"
    and "sanitize_frame env"
  shows "point_data (intersected env mesh m check) VTK_BOUNDARY_MASK \<noteq> None \<and>
     point_data r (GV_REMESH_POINT_IDS env) = None \<and>
     (GV_REMESH_POINT_IDS env \<noteq> VTK_BOUNDARY_MASK \<longrightarrow>
        point_data r VTK_BOUNDARY_MASK =
          (if boundary then point_data (intersected env mesh m check) VTK_BOUNDARY_MASK else None))"
proof -
  define r0 where "r0 = intersected env mesh m check"
  have sh: "split_halves env r0 m boundary = Inr (r, w, e)"
    unfolding r0_def using assms(1-3) by (rule remesh_split)
  from split_halves_point_frame [OF sh] obtain r5 w0 e0 where
    t: "(r, w, e) = sanitize_data env (r5, w0, e0)" and
    b: "point_data r0 VTK_BOUNDARY_MASK \<noteq> None" and
    n5: "point_data r5 (GV_REMESH_POINT_IDS env) = None" and
    p5: "\<forall>name. name \<noteq> GV_REMESH_POINT_IDS env \<longrightarrow>
        point_data r5 name =
          (if \<not> boundary \<and> name = VTK_BOUNDARY_MASK then None else point_data r0 name)"
    by blast
  note f = sanitize_frame_fields [OF assms(4) t, THEN conjunct1, THEN same_frame_fields]
  have c2: "point_data r (GV_REMESH_POINT_IDS env) = None"
    using f n5 by simp
  have c3: "GV_REMESH_POINT_IDS env \<noteq> VTK_BOUNDARY_MASK \<longrightarrow>
        point_data r VTK_BOUNDARY_MASK =
          (if boundary then point_data r0 VTK_BOUNDARY_MASK else None)"
    using f p5 by auto
  show ?thesis
    unfolding r0_def [symmetric] using b c2 c3 by blast
qed

lemma remesh_outputs:
  assumes "wrap env meridian = m # ms"
    and "n_cells (intersected env mesh m check) \<noteq> 0"
    and "fst (remesh env mesh meridian boundary check warnings display) = Inr (r, w, e)"
    and "sanitize_frame env"
    and "cell_data (intersected env mesh m check) (GV_REMESH_POINT_IDS env) = None"
    and "GV_REMESH_POINT_IDS env \<noteq> ''vtkOriginalCellIds''"
  shows "cells r = cells (intersected env mesh m check) \<and>
     cell_data r (GV_CELL_IDS env) = cell_data (intersected env mesh m check) (GV_CELL_IDS env) \<and>
     n_cells w =
       length (nths (cells (intersected env mesh m check))
         (kept_ids (intersected env mesh m check)
            (west_mask (deltas env (intersected env mesh m check) m)))) \<and>
     n_cells e =
       length (nths (cells (intersected env mesh m check))
         (kept_ids (intersected env mesh m check)
            (east_mask (deltas env (intersected env mesh m check) m)))) \<and>
     (GV_CELL_IDS env \<noteq> ''vtkOriginalCellIds'' \<longrightarrow>
        cell_data w (GV_CELL_IDS env) =
          map_option (\<lambda>a. nths a (kept_ids (intersected env mesh m check)
                 (west_mask (deltas env (intersected env mesh m check) m))))
            (cell_data (intersected env mesh m check) (GV_CELL_IDS env)) \<and>
        cell_data e (GV_CELL_IDS env) =
          map_option (\<lambda>a. nths a (kept_ids (intersected env mesh m check)
                 (east_mask (deltas env (intersected env mesh m check) m))))
            (cell_data (intersected env mesh m check) (GV_CELL_IDS env))) \<and>
     (\<exists>a. point_data w (GV_REMESH_POINT_IDS env) = Some a \<and>
          set a \<subseteq> {REMESH_SEAM env, REMESH_JOIN env} \<and> length a = n_points w) \<and>
     (\<exists>a. point_data e (GV_REMESH_POINT_IDS env) = Some a \<and>
          set a \<subseteq> {REMESH_SEAM_EAST env, REMESH_JOIN env} \<and> length a = n_points e)"
proof -
  define r0 where "r0 = intersected env mesh m check"
  have sh: "split_halves env r0 m boundary = Inr (r, w, e)"
    unfolding r0_def using assms(1-3) by (rule remesh_split)
  have c0: "cell_data r0 (GV_REMESH_POINT_IDS env) = None"
    using assms(5) by (simp add: r0_def)
  from split_halves_facts [OF sh c0 assms(6)] obtain r5 w0 e0 where
    all: "(r, w, e) = sanitize_data env (r5, w0, e0) \<and>
     points r5 = points r0 \<and> cells r5 = cells r0 \<and> cell_data r5 = cell_data r0 \<and>
     n_cells w0 = length (nths (cells r0) (kept_ids r0 (west_mask (deltas env r0 m)))) \<and>
     n_cells e0 = length (nths (cells r0) (kept_ids r0 (east_mask (deltas env r0 m)))) \<and>
     (\<forall>name. name \<noteq> ''vtkOriginalCellIds'' \<longrightarrow>
        cell_data w0 name =
          map_option (\<lambda>a. nths a (kept_ids r0 (west_mask (deltas env r0 m)))) (cell_data r0 name)) \<and>
     (\<forall>name. name \<noteq> ''vtkOriginalCellIds'' \<longrightarrow>
        cell_data e0 name =
          map_option (\<lambda>a. nths a (kept_ids r0 (east_mask (deltas env r0 m)))) (cell_data r0 name)) \<and>
     (\<exists>a. point_data w0 (GV_REMESH_POINT_IDS env) = Some a \<and>
          set a \<subseteq> {REMESH_SEAM env, REMESH_JOIN env} \<and> length a = n_points w0) \<and>
     (\<exists>a. point_data e0 (GV_REMESH_POINT_IDS env) = Some a \<and>
          set a \<subseteq> {REMESH_SEAM_EAST env, REMESH_JOIN env} \<and> length a = n_points e0)"
    by (elim exE) (rule that)
  note t = all [THEN conjunct1]
  note g5c = all [THEN conjunct2, THEN conjunct2, THEN conjunct1]
  note g5d = all [THEN conjunct2, THEN conjunct2, THEN conjunct2, THEN conjunct1]
  note w1 = all [THEN conjunct2, THEN conjunct2, THEN conjunct2, THEN conjunct2, THEN conjunct1]
  note e1 = all [THEN conjunct2, THEN conjunct2, THEN conjunct2, THEN conjunct2, THEN conjunct2,
      THEN conjunct1]
  note w2 = all [THEN conjunct2, THEN conjunct2, THEN conjunct2, THEN conjunct2, THEN conjunct2,
      THEN conjunct2, THEN conjunct1]
  note e2 = all [THEN conjunct2, THEN conjunct2, THEN conjunct2, THEN conjunct2, THEN conjunct2,
      THEN conjunct2, THEN conjunct2, THEN conjunct1]
  note w3 = all [THEN conjunct2, THEN conjunct2, THEN conjunct2, THEN conjunct2, THEN conjunct2,
      THEN conjunct2, THEN conjunct2, THEN conjunct2, THEN conjunct1]
  note e3 = all [THEN conjunct2, THEN conjunct2, THEN conjunct2, THEN conjunct2, THEN conjunct2,
      THEN conjunct2, THEN conjunct2, THEN conjunct2, THEN conjunct2]
  note f = sanitize_frame_fields [OF assms(4) t]
  note fr = f [THEN conjunct1, THEN same_frame_fields]
  note fw = f [THEN conjunct2, THEN conjunct1, THEN same_frame_fields]
  note fe = f [THEN conjunct2, THEN conjunct2, THEN same_frame_fields]
  have c1: "cells r = cells r0 \<and> cell_data r (GV_CELL_IDS env) = cell_data r0 (GV_CELL_IDS env)"
    using fr g5c g5d by simp
  have c4: "n_cells w = length (nths (cells r0) (kept_ids r0 (west_mask (deltas env r0 m))))"
    using fw w1 by simp
  have c5: "n_cells e = length (nths (cells r0) (kept_ids r0 (east_mask (deltas env r0 m))))"
    using fe e1 by simp
  have c6: "GV_CELL_IDS env \<noteq> ''vtkOriginalCellIds'' \<longrightarrow>
        cell_data w (GV_CELL_IDS env) =
          map_option (\<lambda>a. nths a (kept_ids r0 (west_mask (deltas env r0 m))))
            (cell_data r0 (GV_CELL_IDS env)) \<and>
        cell_data e (GV_CELL_IDS env) =
          map_option (\<lambda>a. nths a (kept_ids r0 (east_mask (deltas env r0 m))))
            (cell_data r0 (GV_CELL_IDS env))"
    using fw fe w2 e2 by simp
  have c7: "\<exists>a. point_data w (GV_REMESH_POINT_IDS env) = Some a \<and>
          set a \<subseteq> {REMESH_SEAM env, REMESH_JOIN env} \<and> length a = n_points w"
    using w3 fw by simp
  have c8: "\<exists>a. point_data e (GV_REMESH_POINT_IDS env) = Some a \<and>
          set a \<subseteq> {REMESH_SEAM_EAST env, REMESH_JOIN env} \<and> length a = n_points e"
    using e3 fe by simp
  show ?thesis
    unfolding r0_def [symmetric]
    apply (insert c1 c4 c5 c6 c7 c8)
    apply (elim conjE)
    apply (intro conjI)
    apply assumption+
    done
qed

lemma ex_intersects: "n_cells (intersected ex_env ex_mesh 0 check) \<noteq> 0"
  by (simp add: ex_intersected ex_n_cells)

lemma ex_fields:
  "point_data ex_remeshed VTK_BOUNDARY_MASK = None \<and>
   point_data ex_remeshed (GV_REMESH_POINT_IDS ex_env) = None \<and>
   point_data ex_west (GV_REMESH_POINT_IDS ex_env) = Some [- 3, - 4, - 4] \<and>
   point_data ex_east (GV_REMESH_POINT_IDS ex_env) = Some [- 3, - 5, - 5] \<and>
   cell_data ex_remeshed (GV_CELL_IDS ex_env) = Some [0, 0] \<and>
   cell_data ex_west (GV_CELL_IDS ex_env) = Some [0] \<and>
   cell_data ex_east (GV_CELL_IDS ex_env) = Some [0] \<and>
   cell_data ex_split (GV_CELL_IDS ex_env) = Some [0, 0] \<and>
   point_data ex_split VTK_BOUNDARY_MASK = Some [0, 0, 1, 1] \<and>
   n_cells ex_remeshed = 2 \<and> n_cells ex_west = 1 \<and> n_cells ex_east = 1 \<and>
   n_points ex_west = 3 \<and> n_points ex_east = 3"
  by (simp add: ex_remeshed_def ex_west_def ex_east_def ex_split_def ex_names VTK_BOUNDARY_MASK_def
      n_cells_def n_points_def)

lemma ex_no_cell_array:
  "cell_data (intersected ex_env ex_mesh 0 check) (GV_REMESH_POINT_IDS ex_env) = None"
  by (simp add: ex_intersected ex_split_def ex_names)

lemma ex_remesh_name: "GV_REMESH_POINT_IDS ex_env \<noteq> ''vtkOriginalCellIds''"
  by (simp add: ex_names)

lemma ex_tag_cells: "n_cells (tag ex_env ex_mesh) = 1 \<and> n_cells (normalized ex_env ex_mesh) = 1"
  by (simp add: n_tag ex_n_cells ex_normalized) (simp add: n_cells_def ex_mesh_def)

section \<open>The empty input\<close>

text \<open>
  C5. A mesh with no cells makes \<^verbatim>\<open>remesh\<close> raise \<^verbatim>\<open>ValueError\<close> with the message of line 102,
  whatever the other arguments are: the result is the error, and no dataset is returned.
\<close>

theorem remesh_empty_mesh_fails:
  "n_cells mesh = 0 \<Longrightarrow>
     fst (remesh env mesh meridian boundary check warnings display) =
       Inl (ValueError ''Cannot remesh an empty mesh'')"
  by (simp add: remesh_def Let_def)

theorem remesh_empty_mesh_fails_witness:
  "n_cells empty_PolyData = 0 \<and>
   fst (remesh ex_env empty_PolyData 0 False False True True) =
     Inl (ValueError ''Cannot remesh an empty mesh'')"
  using remesh_empty_mesh_fails [of empty_PolyData ex_env 0 False False True True]
  by (simp add: n_cells_def empty_PolyData_def)

text \<open>
  C10. With \<^verbatim>\<open>warnings\<close> false, the error for a mesh with no cells is raised after line 99 has
  turned the global warning display off and before line 164 turns it on again: the display
  is off when the call ends, whatever it was before.
\<close>

theorem remesh_empty_mesh_leaves_display_off:
  "n_cells mesh = 0 \<Longrightarrow>
     remesh env mesh meridian boundary check False display =
       (Inl (ValueError ''Cannot remesh an empty mesh''), False)"
  by (simp add: remesh_def Let_def)

theorem remesh_empty_mesh_leaves_display_off_witness:
  "n_cells empty_PolyData = 0 \<and>
   remesh ex_env empty_PolyData 0 False False False True =
     (Inl (ValueError ''Cannot remesh an empty mesh''), False)"
  using remesh_empty_mesh_leaves_display_off [of empty_PolyData ex_env 0 False False True]
  by (simp add: n_cells_def empty_PolyData_def)

section \<open>The identifier arrays\<close>

text \<open>
  C7. Tagging creates each of the two identifier arrays when the mesh has no array of that
  name, as the integers from 0 up to the number of cells or points, entry \<open>i\<close> being \<open>i\<close>; it
  leaves an array that is there as it is; it changes nothing else; and tagging a tagged mesh
  changes nothing at all.
\<close>

theorem tag_idempotent:
  "(cell_data m (GV_CELL_IDS env) = None \<longrightarrow>
      cell_data (tag env m) = (cell_data m)(GV_CELL_IDS env \<mapsto> arange (n_cells m))) \<and>
   (point_data m (GV_POINT_IDS env) = None \<longrightarrow>
      point_data (tag env m) = (point_data m)(GV_POINT_IDS env \<mapsto> arange (n_points m))) \<and>
   (cell_data m (GV_CELL_IDS env) \<noteq> None \<longrightarrow> cell_data (tag env m) = cell_data m) \<and>
   (point_data m (GV_POINT_IDS env) \<noteq> None \<longrightarrow> point_data (tag env m) = point_data m) \<and>
   length (arange n) = n \<and> (\<forall>i<n. arange n ! i = int i) \<and>
   points (tag env m) = points m \<and> cells (tag env m) = cells m \<and>
   tag env (tag env m) = tag env m"
proof -
  have c: "cell_data m (GV_CELL_IDS env) = None \<longrightarrow>
      cell_data (tag env m) = (cell_data m)(GV_CELL_IDS env \<mapsto> arange (n_cells m))"
    by (auto simp: tag_def Let_def)
  have p: "point_data m (GV_POINT_IDS env) = None \<longrightarrow>
      point_data (tag env m) = (point_data m)(GV_POINT_IDS env \<mapsto> arange (n_points m))"
    by (auto simp: tag_def Let_def n_points_def)
  have c': "cell_data m (GV_CELL_IDS env) \<noteq> None \<longrightarrow> cell_data (tag env m) = cell_data m"
    by (auto simp: tag_def Let_def)
  have p': "point_data m (GV_POINT_IDS env) \<noteq> None \<longrightarrow> point_data (tag env m) = point_data m"
    by (auto simp: tag_def Let_def)
  have a: "length (arange n) = n \<and> (\<forall>i<n. arange n ! i = int i)"
    by (simp add: arange_def)
  have i: "tag env (tag env m) = tag env m"
    by (simp add: tag_def Let_def)
  show ?thesis using c p c' p' a i tag_geometry [of env m] by blast
qed

theorem tag_idempotent_witness:
  "cell_data ex_mesh (GV_CELL_IDS ex_env) = None \<and>
   point_data ex_mesh (GV_POINT_IDS ex_env) = None \<and>
   cell_data (tag ex_env ex_mesh) ''gvOriginalCellIds'' = Some [0] \<and>
   point_data (tag ex_env ex_mesh) ''gvOriginalPointIds'' = Some [0, 1, 2] \<and>
   cell_data (tag ex_env (tag ex_env ex_mesh)) ''gvOriginalCellIds'' = Some [0] \<and>
   point_data (tag ex_env (tag ex_env ex_mesh)) ''gvOriginalPointIds'' = Some [0, 1, 2]"
proof -
  have c: "cell_data ex_mesh (GV_CELL_IDS ex_env) = None"
    by (simp add: ex_mesh_def)
  have p: "point_data ex_mesh (GV_POINT_IDS ex_env) = None"
    by (simp add: ex_mesh_def)
  have n: "arange (n_cells ex_mesh) = [0] \<and> arange (n_points ex_mesh) = [0, 1, 2]"
    by (simp add: arange_def n_cells_def n_points_def ex_mesh_def ex_triangle_def upt_conv_Cons)
  have g: "GV_CELL_IDS ex_env = ''gvOriginalCellIds'' \<and> GV_POINT_IDS ex_env = ''gvOriginalPointIds''"
    by (simp add: ex_env_def)
  show ?thesis
    using tag_idempotent [of ex_mesh ex_env 0] c p n g by simp
qed

section \<open>Casting a dataset that is not an unstructured grid\<close>

text \<open>
  C9. The claim is that a dataset of another class than the unstructured grid is refused
  with a \<^verbatim>\<open>TypeError\<close> that names the expected class. Line 66 builds the message from
  \<^verbatim>\<open>type(mesh).split(" ")\<close>, an attribute that the class object does not have, so the call
  ends there with \<^verbatim>\<open>AttributeError\<close> and line 68 is never reached. Here for the polygonal
  example mesh.
\<close>

theorem cast_PolyData_raises_AttributeError:
  "cast_UnstructuredGrid_to_PolyData ex_env ex_mesh False =
     Inl (AttributeError ''type object PolyData has no attribute split'')"
  by (simp add: cast_UnstructuredGrid_to_PolyData_def type_split_def ex_mesh_def class_name_def)

section \<open>West and east\<close>



section \<open>The meridian that misses the mesh\<close>

text \<open>
  C1. When the dataset that the intersection filter returns has no cells, \<^verbatim>\<open>remesh\<close> returns
  that dataset together with two empty datasets: the western and the eastern output have no
  points and no cells. The first output is the answer of the filter and not the tagged copy of
  the input: the copy has the cells of the input, of which there is at least one, and the
  answer of the filter has none. It is not the normalised copy either, unless triangulation
  has left that one without cells.
\<close>

theorem remesh_no_intersection:
  assumes "wrap env meridian = m # ms" and "n_cells mesh \<noteq> 0"
    and "n_cells (intersected env mesh m check) = 0"
  shows "fst (remesh env mesh meridian boundary check warnings display) =
           Inr (intersected env mesh m check, empty_PolyData, empty_PolyData) \<and>
         n_points empty_PolyData = 0 \<and> n_cells empty_PolyData = 0 \<and>
         intersected env mesh m check \<noteq> tag env mesh \<and>
         (n_cells (normalized env mesh) \<noteq> 0 \<longrightarrow> intersected env mesh m check \<noteq> normalized env mesh)"
proof -
  have 1: "fst (remesh env mesh meridian boundary check warnings display) =
           Inr (intersected env mesh m check, empty_PolyData, empty_PolyData)"
    using remesh_result [OF assms(1,2), of boundary check warnings display] assms(3) by simp
  have 2: "n_points empty_PolyData = 0 \<and> n_cells empty_PolyData = 0"
    by (simp add: n_points_def n_cells_def empty_PolyData_def)
  have "n_cells (tag env mesh) \<noteq> 0"
    using assms(2) n_tag [of env mesh] by simp
  then have 3: "intersected env mesh m check \<noteq> tag env mesh"
    using assms(3) by auto
  have 4: "n_cells (normalized env mesh) \<noteq> 0 \<longrightarrow> intersected env mesh m check \<noteq> normalized env mesh"
    using assms(3) by auto
  show ?thesis using 1 2 3 4 by blast
qed

theorem remesh_no_intersection_witness:
  "wrap ex_env 180 = [- 180] \<and> n_cells ex_mesh = 1 \<and>
   n_cells (intersected ex_env ex_mesh (- 180) False) = 0 \<and>
   n_cells (normalized ex_env ex_mesh) = 1 \<and>
   fst (remesh ex_env ex_mesh 180 False False False True) =
     Inr (intersected ex_env ex_mesh (- 180) False, empty_PolyData, empty_PolyData) \<and>
   intersected ex_env ex_mesh (- 180) False \<noteq> tag ex_env ex_mesh \<and>
   intersected ex_env ex_mesh (- 180) False \<noteq> normalized ex_env ex_mesh"
proof -
  have c: "n_cells ex_mesh \<noteq> 0"
    by (simp add: ex_n_cells)
  have z: "n_cells (intersected ex_env ex_mesh (- 180) False) = 0"
    by (simp add: ex_intersected_180 ex_n_cells)
  show ?thesis
    using remesh_no_intersection [OF ex_wrap_180 c z,
          where boundary = False and warnings = False and display = True]
      ex_wrap_180 z ex_tag_cells
    by (simp add: ex_n_cells)
qed

text \<open>
  The example triangle and the meridian 180, which \<open>wrap\<close> turns into -180. The half plane
  misses the triangle, the filter returns no cells, and all three outputs are the empty
  dataset; the normalised copy of the input is the triangle with its two identifier arrays,
  which has one cell.
\<close>

theorem remesh_meridian_180_example:
  "wrap ex_env 180 = [- 180] \<and>
   n_cells (intersected ex_env ex_mesh (- 180) False) = 0 \<and>
   fst (remesh ex_env ex_mesh 180 False False False True) =
     Inr (empty_PolyData, empty_PolyData, empty_PolyData) \<and>
   points (normalized ex_env ex_mesh) = [(1, - 3, 0), (1, 3, 0), (1, 0, 3)] \<and>
   cells (normalized ex_env ex_mesh) = [[0, 1, 2]] \<and>
   cell_data (normalized ex_env ex_mesh) (GV_CELL_IDS ex_env) = Some [0] \<and>
   point_data (normalized ex_env ex_mesh) (GV_POINT_IDS ex_env) = Some [0, 1, 2] \<and>
   n_cells (normalized ex_env ex_mesh) = 1 \<and> n_cells empty_PolyData = 0 \<and>
   empty_PolyData \<noteq> normalized ex_env ex_mesh"
proof -
  have f: "points (normalized ex_env ex_mesh) = [(1, - 3, 0), (1, 3, 0), (1, 0, 3)] \<and>
   cells (normalized ex_env ex_mesh) = [[0, 1, 2]] \<and>
   cell_data (normalized ex_env ex_mesh) (GV_CELL_IDS ex_env) = Some [0] \<and>
   point_data (normalized ex_env ex_mesh) (GV_POINT_IDS ex_env) = Some [0, 1, 2]"
    unfolding ex_normalized by (simp add: ex_mesh_def ex_triangle_def ex_names)
  have "n_cells empty_PolyData \<noteq> n_cells (normalized ex_env ex_mesh)"
    using ex_tag_cells by (simp add: ex_n_cells)
  then have "empty_PolyData \<noteq> normalized ex_env ex_mesh"
    by auto
  then show ?thesis
    using ex_wrap_180 ex_remesh_180 [of False False False True] f ex_tag_cells
    by (simp add: ex_intersected_180 ex_n_cells)
qed

section \<open>The two halves\<close>

text \<open>
  C3. Let the remeshed dataset have cells, one longitude per cell and an array of cell
  identifiers with one entry per cell, let \<open>sanitize_data\<close> leave the cells and the reserved
  arrays of the datasets alone, and let \<^verbatim>\<open>remesh\<close> return. Then the western and the
  eastern output have together as many cells as the remeshed output, and their arrays of
  cell identifiers hold together, entry for entry with repetitions, what the array of the
  remeshed output holds: every cell goes to exactly one side and takes its identifier along.
  The identifiers of the two sides need not be disjoint, since the two parts of a cell that
  the meridian cuts carry the identifier of that cell on both sides. The hypotheses on the
  names say that \<^verbatim>\<open>remeshed[GV_REMESH_POINT_IDS]\<close> is the point array of line 197, and that the
  two names are not the one under which the extraction records the indices of the cells.
\<close>

theorem partition_counts:
  assumes "wrap env meridian = m # ms"
    and "n_cells (intersected env mesh m check) \<noteq> 0"
    and "fst (remesh env mesh meridian boundary check warnings display) = Inr (r, w, e)"
    and "sanitize_frame env"
    and "cell_data (intersected env mesh m check) (GV_REMESH_POINT_IDS env) = None"
    and "GV_REMESH_POINT_IDS env \<noteq> ''vtkOriginalCellIds''"
    and "length (deltas env (intersected env mesh m check) m) = n_cells (intersected env mesh m check)"
    and "cell_data (intersected env mesh m check) (GV_CELL_IDS env) = Some ids"
    and "length ids = n_cells (intersected env mesh m check)"
    and "GV_CELL_IDS env \<noteq> ''vtkOriginalCellIds''"
  shows "n_cells w + n_cells e = n_cells r \<and>
         (\<exists>wi ei. cell_data w (GV_CELL_IDS env) = Some wi \<and>
                  cell_data e (GV_CELL_IDS env) = Some ei \<and>
                  cell_data r (GV_CELL_IDS env) = Some ids \<and>
                  mset wi + mset ei = mset ids)"
proof -
  define r0 where "r0 = intersected env mesh m check"
  define KW where "KW = kept_ids r0 (west_mask (deltas env r0 m))"
  define KE where "KE = kept_ids r0 (east_mask (deltas env r0 m))"
  note o = remesh_outputs [OF assms(1-6), folded r0_def, folded KW_def KE_def]
  have cr: "cells r = cells r0" using o by blast
  have ir: "cell_data r (GV_CELL_IDS env) = Some ids"
    using o assms(8) by (simp add: r0_def)
  have nw: "n_cells w = length (nths (cells r0) KW)" using o by blast
  have ne: "n_cells e = length (nths (cells r0) KE)" using o by blast
  have iw: "cell_data w (GV_CELL_IDS env) = Some (nths ids KW)"
    using o assms(8,10) by (simp add: r0_def)
  have ie: "cell_data e (GV_CELL_IDS env) = Some (nths ids KE)"
    using o assms(8,10) by (simp add: r0_def)
  have p: "\<forall>i<n_cells r0. (i \<in> KW) \<noteq> (i \<in> KE)"
    unfolding KW_def KE_def using assms(7) by (intro kept_partition) (simp add: r0_def)
  have p1: "\<forall>i<length (cells r0). (i \<in> KW) \<noteq> (i \<in> KE)"
    using p by (simp add: n_cells_def)
  have p2: "\<forall>i<length ids. (i \<in> KW) \<noteq> (i \<in> KE)"
    using p assms(9) by (simp add: r0_def)
  have 1: "n_cells w + n_cells e = n_cells r"
    using nths_partition_length [OF p1] nw ne cr by (simp add: n_cells_def)
  have 2: "mset (nths ids KW) + mset (nths ids KE) = mset ids"
    using p2 by (rule nths_partition_mset)
  show ?thesis using 1 2 iw ie ir by blast
qed

theorem partition_counts_witness:
  "wrap ex_env 0 = [0] \<and> n_cells (intersected ex_env ex_mesh 0 False) = 2 \<and>
   fst (remesh ex_env ex_mesh 0 False False False True) = Inr (ex_remeshed, ex_west, ex_east) \<and>
   deltas ex_env (intersected ex_env ex_mesh 0 False) 0 = [- 45, 45] \<and>
   cell_data (intersected ex_env ex_mesh 0 False) (GV_CELL_IDS ex_env) = Some [0, 0] \<and>
   n_cells ex_west = 1 \<and> n_cells ex_east = 1 \<and> n_cells ex_remeshed = 2 \<and>
   cell_data ex_west (GV_CELL_IDS ex_env) = Some [0] \<and>
   cell_data ex_east (GV_CELL_IDS ex_env) = Some [0] \<and>
   cell_data ex_remeshed (GV_CELL_IDS ex_env) = Some [0, 0]"
proof -
  have l: "length (deltas ex_env (intersected ex_env ex_mesh 0 False) 0) =
      n_cells (intersected ex_env ex_mesh 0 False)"
    by (simp add: ex_intersected ex_deltas ex_n_cells)
  have i: "cell_data (intersected ex_env ex_mesh 0 False) (GV_CELL_IDS ex_env) = Some [0, 0]"
    by (simp add: ex_intersected ex_fields)
  have li: "length [0, 0 :: int] = n_cells (intersected ex_env ex_mesh 0 False)"
    by (simp add: ex_intersected ex_n_cells)
  have d: "GV_CELL_IDS ex_env \<noteq> ''vtkOriginalCellIds''"
    by (simp add: ex_names)
  show ?thesis
    using partition_counts [OF ex_wrap_0 ex_intersects [of False]
          ex_remesh_0 [of False False True] ex_sanitize_frame ex_no_cell_array [of False]
          ex_remesh_name l i li d]
      ex_wrap_0 ex_remesh_0 [of False False True] ex_fields
    by (simp add: ex_intersected ex_n_cells ex_deltas)
qed

text \<open>
  The example triangle and the meridian 0. The filter splits the one cell of the input in
  two, one part on either side; both parts carry the identifier 0 of that cell, so the sets
  of identifiers of the western and of the eastern output meet.
\<close>

theorem origin_cell_ids_shared_example:
  "fst (remesh ex_env ex_mesh 0 False False False True) = Inr (ex_remeshed, ex_west, ex_east) \<and>
   n_cells (intersected ex_env ex_mesh 0 False) = 2 \<and>
   values_of (cell_data ex_west (GV_CELL_IDS ex_env)) = {0} \<and>
   values_of (cell_data ex_east (GV_CELL_IDS ex_env)) = {0} \<and>
   values_of (cell_data ex_west (GV_CELL_IDS ex_env)) \<inter>
     values_of (cell_data ex_east (GV_CELL_IDS ex_env)) \<noteq> {}"
  using ex_remesh_0 [of False False True] ex_fields
  by (simp add: ex_intersected ex_n_cells values_of_def)

section \<open>The seam markers\<close>



section \<open>The point arrays of the remeshed output\<close>

text \<open>
  C6. When \<^verbatim>\<open>remesh\<close> returns for an input that the meridian intersects, and \<open>sanitize_data\<close>
  leaves the reserved arrays of the datasets alone, the remeshed output has the array of the boundary mask exactly when \<^verbatim>\<open>boundary\<close> is true, and then it is the mask
  that the filter has computed; it never has the array \<^verbatim>\<open>GV_REMESH_POINT_IDS\<close>, which line 213
  deletes. The name of that array is another string than the name of the mask.
\<close>

theorem remeshed_point_arrays:
  assumes "wrap env meridian = m # ms"
    and "n_cells (intersected env mesh m check) \<noteq> 0"
    and "fst (remesh env mesh meridian boundary check warnings display) = Inr (r, w, e)"
    and "sanitize_frame env"
    and "GV_REMESH_POINT_IDS env \<noteq> VTK_BOUNDARY_MASK"
  shows "(point_data r VTK_BOUNDARY_MASK \<noteq> None \<longleftrightarrow> boundary) \<and>
         point_data r VTK_BOUNDARY_MASK =
           (if boundary then point_data (intersected env mesh m check) VTK_BOUNDARY_MASK else None) \<and>
         point_data r (GV_REMESH_POINT_IDS env) = None"
proof -
  note o = remesh_point_outputs [OF assms(1-4)]
  have b: "point_data (intersected env mesh m check) VTK_BOUNDARY_MASK \<noteq> None"
    using o by blast
  have n: "point_data r (GV_REMESH_POINT_IDS env) = None"
    using o by blast
  have k: "point_data r VTK_BOUNDARY_MASK =
          (if boundary then point_data (intersected env mesh m check) VTK_BOUNDARY_MASK else None)"
    using o assms(5) by blast
  show ?thesis using b n k by simp
qed

theorem remeshed_point_arrays_witness:
  "wrap ex_env 0 = [0] \<and> n_cells (intersected ex_env ex_mesh 0 False) = 2 \<and>
   fst (remesh ex_env ex_mesh 0 False False False True) = Inr (ex_remeshed, ex_west, ex_east) \<and>
   point_data (intersected ex_env ex_mesh 0 False) VTK_BOUNDARY_MASK = Some [0, 0, 1, 1] \<and>
   point_data ex_remeshed VTK_BOUNDARY_MASK = None \<and>
   point_data ex_remeshed (GV_REMESH_POINT_IDS ex_env) = None"
proof -
  have d: "GV_REMESH_POINT_IDS ex_env \<noteq> VTK_BOUNDARY_MASK"
    by (simp add: ex_names VTK_BOUNDARY_MASK_def)
  show ?thesis
    using remeshed_point_arrays [OF ex_wrap_0 ex_intersects [of False]
          ex_remesh_0 [of False False True] ex_sanitize_frame d]
      ex_wrap_0 ex_remesh_0 [of False False True] ex_fields
    by (simp add: ex_intersected ex_n_cells)
qed

section \<open>The cutting plane and the radius\<close>

text \<open>
  C8. Lines 105 to 139 do not look at the sign of the radius. For a mesh with cells whose
  radius is zero or negative the cutting plane is built like for any other radius, by
  \<^verbatim>\<open>Plane\<close> with the centre \<open>(radius / 2, 0, 0)\<close> and the sizes \<open>radius\<close> and \<open>radius * 2\<close>, rotated
  and triangulated; \<^verbatim>\<open>remesh\<close> hands it to the intersection filter and goes on with what the
  filter returns. No error is raised for the radius.
\<close>

theorem radius_is_not_checked:
  assumes "wrap env meridian = m # ms" and "n_cells mesh \<noteq> 0"
    and "radius = calculate_radius env mesh" and "radius \<le> 0"
    and "remeshed = vtkIntersectionPolyDataFilter env (normalized env mesh)
                      (cutting_plane env radius m) check"
  shows "fst (remesh env mesh meridian boundary check warnings display) =
           (if n_cells remeshed = 0 then Inr (remeshed, empty_PolyData, empty_PolyData)
            else split_halves env remeshed m boundary) \<and>
         cutting_plane env radius m =
           triangulate env
             (rotate_z env
                (Plane env (true_divide env radius 2, 0, 0) 1 1 radius (multiply env radius 2)
                   (0, 1, 0)) m)"
proof -
  have 1: "fst (remesh env mesh meridian boundary check warnings display) =
           (if n_cells remeshed = 0 then Inr (remeshed, empty_PolyData, empty_PolyData)
            else split_halves env remeshed m boundary)"
    using remesh_result [OF assms(1,2), of boundary check warnings display] assms(3,5)
    by (simp add: intersected_def)
  have 2: "cutting_plane env radius m =
           triangulate env
             (rotate_z env
                (Plane env (true_divide env radius 2, 0, 0) 1 1 radius (multiply env radius 2)
                   (0, 1, 0)) m)"
    by (simp add: cutting_plane_def Let_def)
  show ?thesis using 1 2 by blast
qed

theorem radius_is_not_checked_witness:
  "wrap ex_env 0 = [0] \<and> n_cells ex_origin = 1 \<and> calculate_radius ex_env ex_origin = 0 \<and>
   vtkIntersectionPolyDataFilter ex_env (normalized ex_env ex_origin) (cutting_plane ex_env 0 0) False =
     empty_PolyData \<and>
   fst (remesh ex_env ex_origin 0 False False False True) =
     Inr (empty_PolyData, empty_PolyData, empty_PolyData)"
proof -
  have c: "n_cells ex_origin \<noteq> 0"
    by (simp add: ex_n_cells)
  have r: "(0 :: real) = calculate_radius ex_env ex_origin"
    by (simp add: ex_origin_radius)
  have f: "empty_PolyData =
      vtkIntersectionPolyDataFilter ex_env (normalized ex_env ex_origin) (cutting_plane ex_env 0 0) False"
    using ex_intersected_origin [of False] by (simp add: intersected_def ex_origin_radius)
  show ?thesis
    using radius_is_not_checked [OF ex_wrap_0 c r order_refl f,
          where boundary = False and warnings = False and display = True, THEN conjunct1]
      ex_wrap_0 ex_origin_radius f [symmetric]
    by (simp add: ex_n_cells)
qed

text \<open>
  The triangle whose corners lie at the origin has one cell and the radius 0. The cutting
  plane for the radius 0 is a patch of four points and two triangles, all at the origin, and
  the one for the radius -1 is a patch as well; \<^verbatim>\<open>remesh\<close> returns normally.
\<close>

theorem cutting_plane_radius_zero_example:
  "n_cells ex_origin = 1 \<and> calculate_radius ex_env ex_origin = 0 \<and>
   points (cutting_plane ex_env 0 0) = [(0, 0, 0), (0, 0, 0), (0, 0, 0), (0, 0, 0)] \<and>
   cells (cutting_plane ex_env 0 0) = [[0, 1, 3], [0, 3, 2]] \<and>
   points (cutting_plane ex_env (- 1) 0) = [(0, 0, 1), (- 1, 0, 1), (0, 0, - 1), (- 1, 0, - 1)] \<and>
   fst (remesh ex_env ex_origin 0 False False False True) =
     Inr (empty_PolyData, empty_PolyData, empty_PolyData)"
  using ex_origin_radius ex_remesh_origin [of False False False True]
    ex_plane_points [of 0] ex_plane_points [of "- 1"] ex_plane_cells [of 0 0]
  by (simp add: ex_n_cells)

end
